theory Spec2Isabelle
  imports Complex_Main
begin

section \<open>Python values and numpy arrays\<close>

text \<open>
  The module \<^verbatim>\<open>proxmin/nmf.py\<close> computes with Python scalars and two-dimensional numpy
  arrays. Scalars are modelled as real numbers (rounding and overflow are not modelled),
  Python integers as \<open>int\<close>. Every exception the code can raise is a value of \<open>py_error\<close>, and a
  function that can raise returns \<open>py_error + 'a\<close> with \<open>Inl\<close> for the exception.
\<close>

datatype py_error =
  AssertionError | AttributeError | IndexError | TypeError | ValueError

text \<open>
  Python list indexing \<^verbatim>\<open>xs[i]\<close> and item assignment \<^verbatim>\<open>xs[i] = v\<close>: a negative index
  counts from the end, an index out of range raises \<^verbatim>\<open>IndexError\<close>.
\<close>

definition py_index :: "nat \<Rightarrow> int \<Rightarrow> nat option" where
  "py_index n i =
     (let k = (if i < 0 then int n + i else i)
      in if 0 \<le> k \<and> k < int n then Some (nat k) else None)"

definition getitem :: "'a list \<Rightarrow> int \<Rightarrow> py_error + 'a" where
  "getitem xs i =
     (case py_index (length xs) i of
        None \<Rightarrow> Inl IndexError
      | Some k \<Rightarrow> Inr (xs ! k))"

definition setitem :: "'a list \<Rightarrow> int \<Rightarrow> 'a \<Rightarrow> py_error + 'a list" where
  "setitem xs i v =
     (case py_index (length xs) i of
        None \<Rightarrow> Inl IndexError
      | Some k \<Rightarrow> Inr (xs[k := v]))"

text \<open>
  A quotient of numpy scalars. The Lipschitz bounds come out of numpy computations and
  \<^verbatim>\<open>np.abs\<close> returns a numpy scalar, so the two divisions of the controller are numpy
  divisions: a zero divisor raises nothing, it yields \<^verbatim>\<open>inf\<close>, \<^verbatim>\<open>-inf\<close> or \<^verbatim>\<open>nan\<close> with a
  \<^verbatim>\<open>RuntimeWarning\<close>. The reals have no such values; \<open>NonFinite\<close> stands for them. (Were
  the stored bound a Python float, \<^verbatim>\<open>self.slack / self.stored[j]\<close> with a zero bound would
  raise \<^verbatim>\<open>ZeroDivisionError\<close> where the model has \<open>NonFinite\<close>.)
\<close>

datatype np_float = Finite real | NonFinite

definition np_divide :: "real \<Rightarrow> real \<Rightarrow> np_float" where
  "np_divide a b = (if b = 0 then NonFinite else Finite (a / b))"

text \<open>
  The \<^verbatim>\<open>RuntimeWarning\<close> that such a division issues, with the line of the module that
  divides: "divide by zero encountered" for \<open>a / 0\<close> with \<open>a\<close> not 0, "invalid value
  encountered" for \<open>0 / 0\<close>. A division by a divisor other than 0 issues none.
\<close>

datatype np_warning = DivideByZero nat | InvalidValue nat

definition np_warnings :: "nat \<Rightarrow> real \<Rightarrow> real \<Rightarrow> np_warning list" where
  "np_warnings line a b =
     (if b = 0 then [if a = 0 then InvalidValue line else DivideByZero line] else [])"

text \<open>Python's \<^verbatim>\<open>int(x)\<close> on a float truncates towards zero.\<close>

definition py_int :: "real \<Rightarrow> int" where
  "py_int x = (if 0 \<le> x then \<lfloor>x\<rfloor> else \<lceil>x\<rceil>)"

text \<open>
  A two-dimensional numpy array: its shape and its entries. Entries are read through
  \<open>elem\<close> at row \<open>i < nrows\<close> and column \<open>j < ncols\<close>; the code of the module never indexes
  an array itself, it only combines whole arrays.
\<close>

record ndarray =
  nrows :: nat
  ncols :: nat
  elem :: "nat \<Rightarrow> nat \<Rightarrow> real"

text \<open>\<^verbatim>\<open>np.array(rows)\<close> for a list of equally long rows.\<close>

definition of_rows :: "real list list \<Rightarrow> ndarray" where
  "of_rows rs =
     \<lparr>nrows = length rs,
      ncols = (case rs of [] \<Rightarrow> 0 | r # _ \<Rightarrow> length r),
      elem = (\<lambda>i j. rs ! i ! j)\<rparr>"

text \<open>\<^verbatim>\<open>A.dot(B)\<close> on two-dimensional arrays: the matrix product; numpy raises
  \<^verbatim>\<open>ValueError\<close> when the inner dimensions differ.\<close>

definition dot :: "ndarray \<Rightarrow> ndarray \<Rightarrow> py_error + ndarray" where
  "dot A B =
     (if ncols A = nrows B
      then Inr \<lparr>nrows = nrows A, ncols = ncols B,
                elem = (\<lambda>i j. \<Sum>k<ncols A. elem A i k * elem B k j)\<rparr>
      else Inl ValueError)"

text \<open>\<^verbatim>\<open>A.T\<close>\<close>

definition T_arr :: "ndarray \<Rightarrow> ndarray" where
  "T_arr A = \<lparr>nrows = ncols A, ncols = nrows A, elem = (\<lambda>i j. elem A j i)\<rparr>"

text \<open>
  numpy broadcasting of an elementwise binary operation on two-dimensional arrays: two
  dimensions are compatible when they are equal or one of them is 1; the operand whose
  dimension is 1 is repeated along it. Incompatible shapes raise \<^verbatim>\<open>ValueError\<close>.
\<close>

definition bdim :: "nat \<Rightarrow> nat \<Rightarrow> nat option" where
  "bdim m n = (if m = n then Some m else if m = 1 then Some n else if n = 1 then Some m else None)"

definition bidx :: "nat \<Rightarrow> nat \<Rightarrow> nat" where
  "bidx d i = (if d = 1 then 0 else i)"

definition broadcast2 :: "(real \<Rightarrow> real \<Rightarrow> real) \<Rightarrow> ndarray \<Rightarrow> ndarray \<Rightarrow> py_error + ndarray" where
  "broadcast2 f A B =
     (case bdim (nrows A) (nrows B) of
        None \<Rightarrow> Inl ValueError
      | Some m \<Rightarrow>
         (case bdim (ncols A) (ncols B) of
            None \<Rightarrow> Inl ValueError
          | Some n \<Rightarrow>
             Inr \<lparr>nrows = m, ncols = n,
                  elem = (\<lambda>i j. f (elem A (bidx (nrows A) i) (bidx (ncols A) j))
                                   (elem B (bidx (nrows B) i) (bidx (ncols B) j)))\<rparr>))"

text \<open>\<^verbatim>\<open>A - B\<close> and \<^verbatim>\<open>A * B\<close> on arrays, \<^verbatim>\<open>c * A\<close> for a scalar \<open>c\<close>.\<close>

definition arr_sub :: "ndarray \<Rightarrow> ndarray \<Rightarrow> py_error + ndarray" where
  "arr_sub A B = broadcast2 (\<lambda>x y. x - y) A B"

definition arr_mul :: "ndarray \<Rightarrow> ndarray \<Rightarrow> py_error + ndarray" where
  "arr_mul A B = broadcast2 (\<lambda>x y. x * y) A B"

definition scalar_mul :: "real \<Rightarrow> ndarray \<Rightarrow> ndarray" where
  "scalar_mul c A = \<lparr>nrows = nrows A, ncols = ncols A, elem = (\<lambda>i j. c * elem A i j)\<rparr>"

text \<open>\<^verbatim>\<open>A.max()\<close>: the largest entry; numpy raises \<^verbatim>\<open>ValueError\<close> on an array without
  entries.\<close>

definition entries :: "ndarray \<Rightarrow> real list" where
  "entries A = concat (map (\<lambda>i. map (\<lambda>j. elem A i j) [0..<ncols A]) [0..<nrows A])"

definition arr_max :: "ndarray \<Rightarrow> py_error + real" where
  "arr_max A = (if entries A = [] then Inl ValueError else Inr (Max (set (entries A))))"

text \<open>
  The weight argument \<open>W\<close> as the functions can receive it: \<^verbatim>\<open>None\<close> (the default of
  \<^verbatim>\<open>prox_likelihood\<close> and \<^verbatim>\<open>nmf\<close>), a Python scalar (the default \<^verbatim>\<open>W=1\<close> of the gradient
  functions) or an array.
\<close>

datatype weight = WNone | WScalar real | WArray ndarray

text \<open>\<^verbatim>\<open>W * D\<close> for an array \<open>D\<close>: \<^verbatim>\<open>None * D\<close> raises \<^verbatim>\<open>TypeError\<close>.\<close>

definition weight_mul :: "weight \<Rightarrow> ndarray \<Rightarrow> py_error + ndarray" where
  "weight_mul W D =
     (case W of
        WNone \<Rightarrow> Inl TypeError
      | WScalar w \<Rightarrow> Inr (scalar_mul w D)
      | WArray Wm \<Rightarrow> arr_mul Wm D)"

text \<open>\<^verbatim>\<open>W.max()\<close>: a Python scalar has no attribute \<^verbatim>\<open>max\<close>, and neither has \<^verbatim>\<open>None\<close>.\<close>

definition weight_max :: "weight \<Rightarrow> py_error + real" where
  "weight_max W =
     (case W of
        WNone \<Rightarrow> Inl AttributeError
      | WScalar w \<Rightarrow> Inl AttributeError
      | WArray Wm \<Rightarrow> arr_max Wm)"

section \<open>The gradient model (lines 11 to 20)\<close>

text \<open>\<^verbatim>\<open>def delta_data(A, S, Y, W=1): return W*(A.dot(S) - Y)\<close>\<close>

definition delta_data :: "ndarray \<Rightarrow> ndarray \<Rightarrow> ndarray \<Rightarrow> weight \<Rightarrow> py_error + ndarray" where
  "delta_data A S Y W =
     (case dot A S of
        Inl e \<Rightarrow> Inl e
      | Inr P \<Rightarrow>
         (case arr_sub P Y of
            Inl e \<Rightarrow> Inl e
          | Inr R \<Rightarrow> weight_mul W R))"

text \<open>\<^verbatim>\<open>def grad_likelihood_A(A, S, Y, W=1): D = delta_data(A, S, Y, W=W); return D.dot(S.T)\<close>\<close>

definition grad_likelihood_A :: "ndarray \<Rightarrow> ndarray \<Rightarrow> ndarray \<Rightarrow> weight \<Rightarrow> py_error + ndarray" where
  "grad_likelihood_A A S Y W =
     (case delta_data A S Y W of
        Inl e \<Rightarrow> Inl e
      | Inr D \<Rightarrow> dot D (T_arr S))"

text \<open>\<^verbatim>\<open>def grad_likelihood_S(S, A, Y, W=1): D = delta_data(A, S, Y, W=W); return A.T.dot(D)\<close>\<close>

definition grad_likelihood_S :: "ndarray \<Rightarrow> ndarray \<Rightarrow> ndarray \<Rightarrow> weight \<Rightarrow> py_error + ndarray" where
  "grad_likelihood_S S A Y W =
     (case delta_data A S Y W of
        Inl e \<Rightarrow> Inl e
      | Inr D \<Rightarrow> dot (T_arr A) D)"

section \<open>The composed update (lines 23 to 34)\<close>

text \<open>A projection \<^verbatim>\<open>prox_g(X, step)\<close> is a callable that returns an array or raises.\<close>

type_synonym prox = "ndarray \<Rightarrow> real \<Rightarrow> py_error + ndarray"

text \<open>
  Modelled from the spec: \<^verbatim>\<open>operators.prox_id\<close> and \<^verbatim>\<open>operators.prox_plus\<close> are defined in
  a module that is not part of the sources at hand; the interface description gives
  \<^verbatim>\<open>identity_projection(X, step) -> X\<close> and
  \<^verbatim>\<open>non_negativity_projection(X, step) -> max(X,0)\<close> elementwise.
\<close>

definition prox_id :: prox where
  "prox_id X step = Inr X"

definition prox_plus :: prox where
  "prox_plus X step =
     Inr \<lparr>nrows = nrows X, ncols = ncols X, elem = (\<lambda>i j. max (elem X i j) 0)\<rparr>"

text \<open>\<^verbatim>\<open>return prox_g(A - step*grad_likelihood_A(A, S, Y, W=W), step)\<close>\<close>

definition prox_likelihood_A :: "ndarray \<Rightarrow> real \<Rightarrow> ndarray \<Rightarrow> ndarray \<Rightarrow> prox \<Rightarrow> weight \<Rightarrow> py_error + ndarray" where
  "prox_likelihood_A A step S Y prox_g W =
     (case grad_likelihood_A A S Y W of
        Inl e \<Rightarrow> Inl e
      | Inr G \<Rightarrow>
         (case arr_sub A (scalar_mul step G) of
            Inl e \<Rightarrow> Inl e
          | Inr X \<Rightarrow> prox_g X step))"

text \<open>\<^verbatim>\<open>return prox_g(S - step*grad_likelihood_S(S, A, Y, W=W), step)\<close>\<close>

definition prox_likelihood_S :: "ndarray \<Rightarrow> real \<Rightarrow> ndarray \<Rightarrow> ndarray \<Rightarrow> prox \<Rightarrow> weight \<Rightarrow> py_error + ndarray" where
  "prox_likelihood_S S step A Y prox_g W =
     (case grad_likelihood_S S A Y W of
        Inl e \<Rightarrow> Inl e
      | Inr G \<Rightarrow>
         (case arr_sub S (scalar_mul step G) of
            Inl e \<Rightarrow> Inl e
          | Inr X \<Rightarrow> prox_g X step))"

text \<open>
  \<^verbatim>\<open>prox_likelihood(X, step, Xs=None, j=None, Y=None, W=None, prox_S=prox_id, prox_A=prox_id)\<close>.
  The factor index \<open>j\<close> is an integer or \<^verbatim>\<open>None\<close>; \<open>Xs\<close> is the list of factors and \<open>Y\<close> the
  target array, which every caller supplies.
\<close>

definition prox_likelihood ::
  "ndarray \<Rightarrow> real \<Rightarrow> ndarray list \<Rightarrow> int option \<Rightarrow> ndarray \<Rightarrow> weight \<Rightarrow> prox \<Rightarrow> prox \<Rightarrow> py_error + ndarray" where
  "prox_likelihood X step Xs j Y W prox_S prox_A =
     (if j = Some 0 then
        (case getitem Xs 1 of
           Inl e \<Rightarrow> Inl e
         | Inr S \<Rightarrow> prox_likelihood_A X step S Y prox_A W)
      else
        (case getitem Xs 0 of
           Inl e \<Rightarrow> Inl e
         | Inr A \<Rightarrow> prox_likelihood_S X step A Y prox_S W))"

section \<open>The step-size controller (lines 36 to 99)\<close>

text \<open>
  The attributes of a \<^verbatim>\<open>Steps_AS\<close> object. The attribute \<^verbatim>\<open>last\<close> is named \<open>last_it\<close>
  here. An entry of \<open>stored\<close> is \<^verbatim>\<open>None\<close> until the first bound has been stored.
\<close>

record Steps_AS =
  slack :: real
  WSmax :: real
  WAmax :: real
  max_stride :: int
  advance_index :: int
  it :: int
  stride :: "int list"
  last_it :: "int list"
  stored :: "real option list"

text \<open>
  \<^verbatim>\<open>__init__(self, slack=0.9, Wmax=None, max_stride=100, update_order=None, WAmax=None,
  WSmax=None)\<close>. The first branch that finds \<^verbatim>\<open>Wmax is None\<close> also sets \<^verbatim>\<open>Wmax = 1\<close>, which
  the second one then sees.
\<close>

definition Steps_AS_init ::
  "real \<Rightarrow> real option \<Rightarrow> int \<Rightarrow> int list option \<Rightarrow> real option \<Rightarrow> real option \<Rightarrow> py_error + Steps_AS" where
  "Steps_AS_init slack0 Wmax0 max_stride0 update_order WAmax0 WSmax0 =
     (if \<not> (slack0 > 0 \<and> slack0 \<le> 1) then Inl AssertionError
      else
        let (WAmax1, Wmax1) =
              (case WAmax0 of
                 None \<Rightarrow> (case Wmax0 of None \<Rightarrow> (1, Some 1) | Some w \<Rightarrow> (w, Some w))
               | Some a \<Rightarrow> (a, Wmax0));
            WSmax1 =
              (case WSmax0 of
                 None \<Rightarrow> (case Wmax1 of None \<Rightarrow> 1 | Some w \<Rightarrow> w)
               | Some b \<Rightarrow> b)
        in case (case update_order of None \<Rightarrow> Inr 1 | Some order \<Rightarrow> getitem order (- 1)) of
             Inl e \<Rightarrow> Inl e
           | Inr adv \<Rightarrow>
               Inr \<lparr>slack = slack0, WSmax = WSmax1, WAmax = WAmax1,
                    max_stride = max_stride0, advance_index = adv, it = 0,
                    stride = replicate 2 1, last_it = replicate 2 (- 1),
                    stored = replicate 2 None\<rparr>)"

text \<open>
  Lines 80 to 83, the Lipschitz bound. The helper \<^verbatim>\<open>utils.get_spectral_norm\<close> is not part
  of the sources at hand and is a parameter of the model.
\<close>

definition lipschitz :: "(ndarray \<Rightarrow> real) \<Rightarrow> Steps_AS \<Rightarrow> int \<Rightarrow> ndarray list \<Rightarrow> py_error + real" where
  "lipschitz get_spectral_norm s j Xs =
     (if j = 0 then
        (case getitem Xs 1 of
           Inl e \<Rightarrow> Inl e
         | Inr S \<Rightarrow> Inr (get_spectral_norm (T_arr S) * WAmax s))
      else
        (case getitem Xs 0 of
           Inl e \<Rightarrow> Inl e
         | Inr A \<Rightarrow> Inr (get_spectral_norm A * WSmax s)))"

text \<open>Lines 84 to 85 and 96 to 97: \<^verbatim>\<open>if j == self.advance_index: self.it += 1\<close>\<close>

definition advance :: "Steps_AS \<Rightarrow> int \<Rightarrow> Steps_AS" where
  "advance s j = (if j = advance_index s then s\<lparr>it := it s + 1\<rparr> else s)"

text \<open>
  Lines 88 to 93, the growth of the stride, with the warnings that the block issues.
  \<^verbatim>\<open>self.stored[j] - L\<close> raises \<^verbatim>\<open>TypeError\<close> when the entry is still \<^verbatim>\<open>None\<close>. When the
  entry is 0 the division of line 89 issues a warning and the relative error is \<^verbatim>\<open>inf\<close>
  or \<^verbatim>\<open>nan\<close>, for which the test \<^verbatim>\<open>rel_error < budget and rel_error > 0\<close> of line 91 is
  false. Every exception of this block is raised before the block has changed anything.
\<close>

definition grow_stride_traced ::
  "Steps_AS \<Rightarrow> int \<Rightarrow> real \<Rightarrow> (py_error + Steps_AS) \<times> np_warning list" where
  "grow_stride_traced s j L =
     (if it s > 1 \<and> slack s < 1 then
        (case getitem (stored s) j of
           Inl e \<Rightarrow> (Inl e, [])
         | Inr None \<Rightarrow> (Inl TypeError, [])
         | Inr (Some v) \<Rightarrow>
            ((case np_divide \<bar>v - L\<bar> v of
                NonFinite \<Rightarrow> Inr s
              | Finite rel_error \<Rightarrow>
                 let budget = (1 - slack s) / 2 in
                 if rel_error < budget \<and> rel_error > 0 then
                   (case getitem (stride s) j of
                      Inl e \<Rightarrow> Inl e
                    | Inr st \<Rightarrow>
                       (case setitem (stride s) j
                               (st + max 1 (py_int (budget / rel_error * real_of_int st))) of
                          Inl e \<Rightarrow> Inl e
                        | Inr stride1 \<Rightarrow>
                           (case getitem stride1 j of
                              Inl e \<Rightarrow> Inl e
                            | Inr st1 \<Rightarrow>
                               (case setitem stride1 j (min (max_stride s) st1) of
                                  Inl e \<Rightarrow> Inl e
                                | Inr stride2 \<Rightarrow> Inr (s\<lparr>stride := stride2\<rparr>)))))
                 else Inr s),
             np_warnings 89 \<bar>v - L\<bar> v))
      else (Inr s, []))"

definition grow_stride :: "Steps_AS \<Rightarrow> int \<Rightarrow> real \<Rightarrow> py_error + Steps_AS" where
  "grow_stride s j L = fst (grow_stride_traced s j L)"

text \<open>Line 99: \<^verbatim>\<open>return self.slack / self.stored[j]\<close>, with the warning of the division.\<close>

definition step_size_traced :: "Steps_AS \<Rightarrow> int \<Rightarrow> (py_error + np_float) \<times> np_warning list" where
  "step_size_traced s j =
     (case getitem (stored s) j of
        Inl e \<Rightarrow> (Inl e, [])
      | Inr None \<Rightarrow> (Inl TypeError, [])
      | Inr (Some v) \<Rightarrow> (Inr (np_divide (slack s) v), np_warnings 99 (slack s) v))"

definition step_size :: "Steps_AS \<Rightarrow> int \<Rightarrow> py_error + np_float" where
  "step_size s j = fst (step_size_traced s j)"

text \<open>
  \<^verbatim>\<open>__call__(self, j, Xs)\<close>. The object is mutable, so the call yields its outcome together
  with the state of the object afterwards; when the call raises, the assignments made
  before the exception remain. The third component lists the warnings that the call
  issues, in order.
\<close>

definition Steps_AS_call_traced ::
  "(ndarray \<Rightarrow> real) \<Rightarrow> Steps_AS \<Rightarrow> int \<Rightarrow> ndarray list
     \<Rightarrow> ((py_error + np_float) \<times> Steps_AS) \<times> np_warning list" where
  "Steps_AS_call_traced get_spectral_norm s j Xs =
     (case getitem (last_it s) j of
        Inl e \<Rightarrow> ((Inl e, s), [])
      | Inr lastj \<Rightarrow>
         (case getitem (stride s) j of
            Inl e \<Rightarrow> ((Inl e, s), [])
          | Inr stridej \<Rightarrow>
             if it s \<ge> lastj + stridej then
               (case setitem (last_it s) j (it s) of
                  Inl e \<Rightarrow> ((Inl e, s), [])
                | Inr last1 \<Rightarrow>
                   let s1 = s\<lparr>last_it := last1\<rparr> in
                   (case lipschitz get_spectral_norm s1 j Xs of
                      Inl e \<Rightarrow> ((Inl e, s1), [])
                    | Inr L \<Rightarrow>
                       let s2 = advance s1 j in
                       (case grow_stride_traced s2 j L of
                          (Inl e, w) \<Rightarrow> ((Inl e, s2), w)
                        | (Inr s3, w) \<Rightarrow>
                           (case setitem (stored s3) j (Some L) of
                              Inl e \<Rightarrow> ((Inl e, s3), w)
                            | Inr stored1 \<Rightarrow>
                               let s4 = s3\<lparr>stored := stored1\<rparr>
                               in (case step_size_traced s4 j of
                                     (r, w') \<Rightarrow> ((r, s4), w @ w'))))))
             else
               let s1 = advance s j
               in (case step_size_traced s1 j of (r, w) \<Rightarrow> ((r, s1), w))))"

text \<open>The outcome and the state of the object after the call.\<close>

definition Steps_AS_call ::
  "(ndarray \<Rightarrow> real) \<Rightarrow> Steps_AS \<Rightarrow> int \<Rightarrow> ndarray list \<Rightarrow> (py_error + np_float) \<times> Steps_AS" where
  "Steps_AS_call get_spectral_norm s j Xs = fst (Steps_AS_call_traced get_spectral_norm s j Xs)"

text \<open>
  A sequence of calls on one controller object, each with its factor index and its list of
  factors. A caller that catches an exception can go on calling the object, so the
  sequence continues from the state the failed call left.
\<close>

fun run :: "(ndarray \<Rightarrow> real) \<Rightarrow> Steps_AS \<Rightarrow> (int \<times> ndarray list) list \<Rightarrow> Steps_AS" where
  "run get_spectral_norm s [] = s"
| "run get_spectral_norm s ((j, Xs) # calls) =
     run get_spectral_norm (snd (Steps_AS_call get_spectral_norm s j Xs)) calls"

section \<open>The driver (lines 101 to 163)\<close>

text \<open>
  The solver \<^verbatim>\<open>algorithms.bsdmm\<close> is not part of the sources at hand and is a parameter of
  the model. It receives the initial factors, the composed update, the step-size
  controller (its call and its state at construction), the arguments that \<^verbatim>\<open>nmf\<close> only
  passes through (\<^verbatim>\<open>proxs_g\<close>, \<^verbatim>\<open>steps_g\<close>, \<^verbatim>\<open>Ls\<close>, \<^verbatim>\<open>steps_g_update\<close>, \<^verbatim>\<open>accelerated\<close>,
  \<^verbatim>\<open>max_iter\<close>, \<^verbatim>\<open>e_rel\<close>, \<^verbatim>\<open>e_abs\<close>, gathered in one value), the update order and the
  trace flag; it returns the final factors and a trace, or raises.
\<close>

type_synonym update_fn = "ndarray \<Rightarrow> real \<Rightarrow> ndarray list \<Rightarrow> int option \<Rightarrow> py_error + ndarray"

type_synonym step_fn = "Steps_AS \<Rightarrow> int \<Rightarrow> ndarray list \<Rightarrow> (py_error + np_float) \<times> Steps_AS"

type_synonym ('o, 't) solver =
  "ndarray list \<Rightarrow> update_fn \<Rightarrow> step_fn \<Rightarrow> Steps_AS \<Rightarrow> 'o \<Rightarrow> int list option \<Rightarrow> bool
     \<Rightarrow> py_error + ndarray list \<times> 't"

text \<open>Lines 160 to 163: the factors, and the trace when it was asked for.\<close>

definition nmf_return :: "bool \<Rightarrow> py_error + ndarray list \<times> 't \<Rightarrow> py_error + ndarray \<times> ndarray \<times> 't option" where
  "nmf_return traceback res =
     (case res of
        Inl e \<Rightarrow> Inl e
      | Inr (Xs, trace) \<Rightarrow>
         (case getitem Xs 0 of
            Inl e \<Rightarrow> Inl e
          | Inr A \<Rightarrow>
             (case getitem Xs 1 of
                Inl e \<Rightarrow> Inl e
              | Inr S \<Rightarrow> Inr (A, S, if traceback then Some trace else None))))"

text \<open>
  \<^verbatim>\<open>nmf(Y, A0, S0, W=None, prox_A, prox_S, ..., slack=0.9, update_order=None, ...,
  traceback=False)\<close>: lines 145 to 149 fix \<open>W\<close> and \<open>Wmax\<close> and build the controller with
  \<^verbatim>\<open>Steps_AS(Wmax=Wmax, slack=slack, update_order=update_order)\<close>, line 153 binds the update,
  line 156 calls the solver.
\<close>

definition nmf ::
  "(ndarray \<Rightarrow> real) \<Rightarrow> ('o, 't) solver \<Rightarrow> ndarray \<Rightarrow> ndarray \<Rightarrow> ndarray \<Rightarrow> weight \<Rightarrow> prox \<Rightarrow> prox
     \<Rightarrow> 'o \<Rightarrow> real \<Rightarrow> int list option \<Rightarrow> bool \<Rightarrow> py_error + ndarray \<times> ndarray \<times> 't option" where
  "nmf get_spectral_norm bsdmm Y A0 S0 W prox_A prox_S opts slack0 update_order traceback =
     (case (case W of
              WNone \<Rightarrow> Inr (WScalar 1, 1)
            | _ \<Rightarrow> (case weight_max W of Inl e \<Rightarrow> Inl e | Inr m \<Rightarrow> Inr (W, m))) of
        Inl e \<Rightarrow> Inl e
      | Inr (W1, Wmax) \<Rightarrow>
         (case Steps_AS_init slack0 (Some Wmax) 100 update_order None None of
            Inl e \<Rightarrow> Inl e
          | Inr steps_f \<Rightarrow>
             let f = (\<lambda>X step Xs j. prox_likelihood X step Xs j Y W1 prox_S prox_A);
                 Xs = [A0, S0]
             in nmf_return traceback
                  (bsdmm Xs f (Steps_AS_call get_spectral_norm) steps_f opts update_order traceback)))"

section \<open>Notions used to state the properties\<close>

text \<open>
  A weight is broadcastable to \<open>M \<times> N\<close> when it is a scalar or an array each of whose
  dimensions is the target dimension or 1; \<open>weight_at W i j\<close> is the weight that then
  applies to entry \<open>(i, j)\<close>.
\<close>

definition broadcastable :: "weight \<Rightarrow> nat \<Rightarrow> nat \<Rightarrow> bool" where
  "broadcastable W M N =
     (case W of
        WNone \<Rightarrow> False
      | WScalar w \<Rightarrow> True
      | WArray Wm \<Rightarrow> (nrows Wm = M \<or> nrows Wm = 1) \<and> (ncols Wm = N \<or> ncols Wm = 1))"

definition weight_at :: "weight \<Rightarrow> nat \<Rightarrow> nat \<Rightarrow> real" where
  "weight_at W i j =
     (case W of
        WNone \<Rightarrow> 0
      | WScalar w \<Rightarrow> w
      | WArray Wm \<Rightarrow> elem Wm (bidx (nrows Wm) i) (bidx (ncols Wm) j))"

text \<open>
  For the worked examples the spectral-norm parameter is instantiated on \<open>1 \<times> 1\<close> arrays,
  where the largest singular value of \<open>[[a]]\<close> is \<open>\<bar>a\<bar>\<close>; and the solver parameter by one
  alternating sweep: a step size and an update for factor 0, then for factor 1 (it gives
  up on a step size that is not finite).
\<close>

definition norm11 :: "ndarray \<Rightarrow> real" where
  "norm11 X = \<bar>elem X 0 0\<bar>"

text \<open>
  A pair of \<open>1 \<times> 1\<close> factors, and the object that \<^verbatim>\<open>Steps_AS()\<close> constructs from the
  defaults \<^verbatim>\<open>slack=0.9\<close>, \<^verbatim>\<open>max_stride=100\<close>.
\<close>

definition Xs11 :: "real \<Rightarrow> real \<Rightarrow> ndarray list" where
  "Xs11 a b = [of_rows [[a]], of_rows [[b]]]"

definition default_ctrl :: Steps_AS where
  "default_ctrl =
     \<lparr>slack = 9 / 10, WSmax = 1, WAmax = 1, max_stride = 100, advance_index = 1, it = 0,
      stride = [1, 1], last_it = [- 1, - 1], stored = [None, None]\<rparr>"

definition one_sweep :: "(unit, unit) solver" where
  "one_sweep Xs f steps_f st opts update_order traceback =
     (case steps_f st 0 Xs of
        (Inr (Finite step0), st1) \<Rightarrow>
         (case f (Xs ! 0) step0 Xs (Some 0) of
            Inl e \<Rightarrow> Inl e
          | Inr A1 \<Rightarrow>
             (case steps_f st1 1 [A1, Xs ! 1] of
                (Inr (Finite step1), st2) \<Rightarrow>
                 (case f (Xs ! 1) step1 [A1, Xs ! 1] (Some 1) of
                    Inl e \<Rightarrow> Inl e
                  | Inr S1 \<Rightarrow> Inr ([A1, S1], ()))
              | (Inr NonFinite, st2) \<Rightarrow> Inl ValueError
              | (Inl e, st2) \<Rightarrow> Inl e))
      | (Inr NonFinite, st1) \<Rightarrow> Inl ValueError
      | (Inl e, st1) \<Rightarrow> Inl e)"

section \<open>The controller without its warnings\<close>

text \<open>
  Outcome and state do not depend on the warnings: the three projections satisfy the
  equations of the method with the warnings left out.
\<close>

lemma grow_stride_unfold:
  "grow_stride s j L =
     (if it s > 1 \<and> slack s < 1 then
        (case getitem (stored s) j of
           Inl e \<Rightarrow> Inl e
         | Inr None \<Rightarrow> Inl TypeError
         | Inr (Some v) \<Rightarrow>
            (case np_divide \<bar>v - L\<bar> v of
               NonFinite \<Rightarrow> Inr s
             | Finite rel_error \<Rightarrow>
                let budget = (1 - slack s) / 2 in
                if rel_error < budget \<and> rel_error > 0 then
                  (case getitem (stride s) j of
                     Inl e \<Rightarrow> Inl e
                   | Inr st \<Rightarrow>
                      (case setitem (stride s) j
                              (st + max 1 (py_int (budget / rel_error * real_of_int st))) of
                         Inl e \<Rightarrow> Inl e
                       | Inr stride1 \<Rightarrow>
                          (case getitem stride1 j of
                             Inl e \<Rightarrow> Inl e
                           | Inr st1 \<Rightarrow>
                              (case setitem stride1 j (min (max_stride s) st1) of
                                 Inl e \<Rightarrow> Inl e
                               | Inr stride2 \<Rightarrow> Inr (s\<lparr>stride := stride2\<rparr>)))))
                else Inr s))
      else Inr s)"
  unfolding grow_stride_def grow_stride_traced_def
  by (simp split: sum.split option.split)

lemma step_size_unfold:
  "step_size s j =
     (case getitem (stored s) j of
        Inl e \<Rightarrow> Inl e
      | Inr None \<Rightarrow> Inl TypeError
      | Inr (Some v) \<Rightarrow> Inr (np_divide (slack s) v))"
  unfolding step_size_def step_size_traced_def
  by (simp split: sum.split option.split)

lemma Steps_AS_call_unfold:
  "Steps_AS_call get_spectral_norm s j Xs =
     (case getitem (last_it s) j of
        Inl e \<Rightarrow> (Inl e, s)
      | Inr lastj \<Rightarrow>
         (case getitem (stride s) j of
            Inl e \<Rightarrow> (Inl e, s)
          | Inr stridej \<Rightarrow>
             if it s \<ge> lastj + stridej then
               (case setitem (last_it s) j (it s) of
                  Inl e \<Rightarrow> (Inl e, s)
                | Inr last1 \<Rightarrow>
                   let s1 = s\<lparr>last_it := last1\<rparr> in
                   (case lipschitz get_spectral_norm s1 j Xs of
                      Inl e \<Rightarrow> (Inl e, s1)
                    | Inr L \<Rightarrow>
                       let s2 = advance s1 j in
                       (case grow_stride s2 j L of
                          Inl e \<Rightarrow> (Inl e, s2)
                        | Inr s3 \<Rightarrow>
                           (case setitem (stored s3) j (Some L) of
                              Inl e \<Rightarrow> (Inl e, s3)
                            | Inr stored1 \<Rightarrow>
                               let s4 = s3\<lparr>stored := stored1\<rparr> in (step_size s4 j, s4)))))
             else
               let s1 = advance s j in (step_size s1 j, s1)))"
  unfolding Steps_AS_call_def Steps_AS_call_traced_def grow_stride_def step_size_def Let_def
  by (simp split: sum.split prod.split)

section \<open>List indexing\<close>

lemma py_index_less: "py_index n i = Some k \<Longrightarrow> k < n"
  by (auto simp: py_index_def Let_def split: if_splits)

lemma py_index_nat: "0 \<le> j \<Longrightarrow> nat j < n \<Longrightarrow> py_index n j = Some (nat j)"
  by (auto simp: py_index_def Let_def)

lemma nth_update_py_index: "py_index (length xs) j = Some k \<Longrightarrow> xs[k := v] ! k = v"
  by (simp add: py_index_less)

lemma setitem_length: "setitem xs j v = Inr ys \<Longrightarrow> length ys = length xs"
  by (auto simp: setitem_def split: option.splits)

lemma replicate_2: "replicate 2 x = [x, x]"
  by (simp add: numeral_2_eq_2)

lemmas eval_defs = Steps_AS_init_def Steps_AS_call_unfold getitem_def setitem_def py_index_def
  lipschitz_def advance_def grow_stride_unfold step_size_unfold np_divide_def py_int_def norm11_def
  of_rows_def T_arr_def Let_def replicate_2 Xs11_def default_ctrl_def

section \<open>The controller: one call\<close>

text \<open>The growth block of lines 88 to 93, with the list accesses resolved.\<close>

lemma grow_stride_eq:
  "grow_stride s j L =
    (if it s > 1 \<and> slack s < 1 then
       (case py_index (length (stored s)) j of
          None \<Rightarrow> Inl IndexError
        | Some k \<Rightarrow>
           (case stored s ! k of
              None \<Rightarrow> Inl TypeError
            | Some v \<Rightarrow>
               if v = 0 then Inr s
               else if \<bar>v - L\<bar> / v < (1 - slack s) / 2 \<and> 0 < \<bar>v - L\<bar> / v then
                 (case py_index (length (stride s)) j of
                    None \<Rightarrow> Inl IndexError
                  | Some k' \<Rightarrow>
                     Inr (s\<lparr>stride := (stride s)[k' := min (max_stride s)
                           (stride s ! k' + max 1 (py_int ((1 - slack s) / 2 / (\<bar>v - L\<bar> / v)
                              * real_of_int (stride s ! k'))))]\<rparr>))
               else Inr s))
     else Inr s)"
  unfolding grow_stride_unfold Let_def getitem_def setitem_def np_divide_def
  by (auto simp: nth_update_py_index split: option.splits)

lemma grow_stride_cases:
  assumes "grow_stride s j L = Inr s'"
  shows "s' = s \<or> (\<exists>k g. k < length (stride s) \<and> 1 \<le> g \<and>
           s' = s\<lparr>stride := (stride s)[k := min (max_stride s) (stride s ! k + g)]\<rparr>)"
proof (cases "s' = s")
  case False
  with assms obtain k v where k: "py_index (length (stride s)) j = Some k"
    and s': "s' = s\<lparr>stride := (stride s)[k := min (max_stride s)
       (stride s ! k + max 1 (py_int ((1 - slack s) / 2 / (\<bar>v - L\<bar> / v)
          * real_of_int (stride s ! k))))]\<rparr>"
    unfolding grow_stride_eq by (auto split: if_splits option.splits)
  have "(1::int) \<le> max 1 (py_int ((1 - slack s) / 2 / (\<bar>v - L\<bar> / v) * real_of_int (stride s ! k)))"
    by simp
  with k s' show ?thesis using py_index_less by blast
qed simp

lemma grow_stride_invariant:
  assumes g: "grow_stride s j L = Inr s'"
    and inv: "list_all (\<lambda>x. 1 \<le> x \<and> x \<le> max_stride s) (stride s)"
  shows "list_all (\<lambda>x. 1 \<le> x \<and> x \<le> max_stride s) (stride s') \<and>
         list_all2 (\<le>) (stride s) (stride s')"
  using grow_stride_cases[OF g]
proof (elim disjE exE conjE)
  assume "s' = s"
  then show ?thesis using inv by (simp add: list_all2_refl)
next
  fix k g
  assume k: "k < length (stride s)" and g1: "(1::int) \<le> g"
    and s': "s' = s\<lparr>stride := (stride s)[k := min (max_stride s) (stride s ! k + g)]\<rparr>"
  from inv k have b: "1 \<le> stride s ! k" "stride s ! k \<le> max_stride s"
    by (auto simp: list_all_length)
  show ?thesis
    using inv k g1 b unfolding s'
    by (auto simp: list_all_length list_all2_conv_all_nth nth_list_update)
qed

lemma grow_stride_frame:
  "grow_stride s j L = Inr s' \<Longrightarrow>
     slack s' = slack s \<and> WSmax s' = WSmax s \<and> WAmax s' = WAmax s \<and>
     max_stride s' = max_stride s \<and> advance_index s' = advance_index s \<and> it s' = it s \<and>
     last_it s' = last_it s \<and> stored s' = stored s \<and> length (stride s') = length (stride s)"
  by (drule grow_stride_cases) auto

lemma advance_frame:
  "slack (advance s j) = slack s \<and> WSmax (advance s j) = WSmax s \<and>
   WAmax (advance s j) = WAmax s \<and> max_stride (advance s j) = max_stride s \<and>
   advance_index (advance s j) = advance_index s \<and> last_it (advance s j) = last_it s \<and>
   stored (advance s j) = stored s \<and> stride (advance s j) = stride s \<and>
   it (advance s j) = (if j = advance_index s then it s + 1 else it s)"
  by (simp add: advance_def)

lemma advance_mark:
  "it (advance (s\<lparr>last_it := l\<rparr>) j) = it (advance s j) \<and>
   slack (advance (s\<lparr>last_it := l\<rparr>) j) = slack s \<and>
   stored (advance (s\<lparr>last_it := l\<rparr>) j) = stored s \<and>
   stride (advance (s\<lparr>last_it := l\<rparr>) j) = stride s \<and>
   max_stride (advance (s\<lparr>last_it := l\<rparr>) j) = max_stride s"
  by (simp add: advance_def)

lemma lipschitz_last_it: "lipschitz sn (s\<lparr>last_it := l\<rparr>) j Xs = lipschitz sn s j Xs"
  by (auto simp: lipschitz_def split: sum.splits)

text \<open>The states in which a call can leave the object, one for each place where the method
  returns or raises.\<close>

lemma call_snd_cases:
  obtains (unchanged) "snd (Steps_AS_call sn s j Xs) = s"
  | (marked) l where "length l = length (last_it s)"
      "snd (Steps_AS_call sn s j Xs) = s\<lparr>last_it := l\<rparr>"
  | (advanced) l where "length l = length (last_it s)"
      "snd (Steps_AS_call sn s j Xs) = advance (s\<lparr>last_it := l\<rparr>) j"
  | (recomputed) l L s3 so where "length l = length (last_it s)"
      "grow_stride (advance (s\<lparr>last_it := l\<rparr>) j) j L = Inr s3"
      "length so = length (stored s3)"
      "snd (Steps_AS_call sn s j Xs) = s3\<lparr>stored := so\<rparr>"
  | (reused) "snd (Steps_AS_call sn s j Xs) = advance s j"
proof (cases "getitem (last_it s) j")
  case (Inl e)
  then show ?thesis using unchanged by (simp add: Steps_AS_call_unfold)
next
  case lastj: (Inr lastj)
  show ?thesis
  proof (cases "getitem (stride s) j")
    case (Inl e)
    then show ?thesis using unchanged lastj by (simp add: Steps_AS_call_unfold)
  next
    case stridej: (Inr stridej)
    show ?thesis
    proof (cases "it s \<ge> lastj + stridej")
      case False
      then show ?thesis using reused lastj stridej by (simp add: Steps_AS_call_unfold Let_def)
    next
      case due: True
      show ?thesis
      proof (cases "setitem (last_it s) j (it s)")
        case (Inl e)
        then show ?thesis using unchanged lastj stridej due by (simp add: Steps_AS_call_unfold)
      next
        case last1: (Inr last1)
        then have len: "length last1 = length (last_it s)" by (rule setitem_length)
        show ?thesis
        proof (cases "lipschitz sn (s\<lparr>last_it := last1\<rparr>) j Xs")
          case (Inl e)
          then show ?thesis using marked[OF len] lastj stridej due last1
            by (simp add: Steps_AS_call_unfold Let_def)
        next
          case L: (Inr L)
          show ?thesis
          proof (cases "grow_stride (advance (s\<lparr>last_it := last1\<rparr>) j) j L")
            case (Inl e)
            then show ?thesis using advanced[OF len] lastj stridej due last1 L
              by (simp add: Steps_AS_call_unfold Let_def)
          next
            case s3: (Inr s3)
            show ?thesis
            proof (cases "setitem (stored s3) j (Some L)")
              case (Inl e)
              have "s3 = s3\<lparr>stored := stored s3\<rparr>" by simp
              with Inl show ?thesis
                using recomputed[OF len s3, of "stored s3"] lastj stridej due last1 L s3
                by (simp add: Steps_AS_call_unfold Let_def)
            next
              case (Inr stored1)
              then have "length stored1 = length (stored s3)" by (rule setitem_length)
              then show ?thesis
                using recomputed[OF len s3, of stored1] lastj stridej due last1 L s3 Inr
                by (simp add: Steps_AS_call_unfold Let_def)
            qed
          qed
        qed
      qed
    qed
  qed
qed

lemma call_frame:
  "slack (snd (Steps_AS_call sn s j Xs)) = slack s \<and>
   WSmax (snd (Steps_AS_call sn s j Xs)) = WSmax s \<and>
   WAmax (snd (Steps_AS_call sn s j Xs)) = WAmax s \<and>
   max_stride (snd (Steps_AS_call sn s j Xs)) = max_stride s \<and>
   advance_index (snd (Steps_AS_call sn s j Xs)) = advance_index s \<and>
   length (last_it (snd (Steps_AS_call sn s j Xs))) = length (last_it s) \<and>
   length (stride (snd (Steps_AS_call sn s j Xs))) = length (stride s) \<and>
   length (stored (snd (Steps_AS_call sn s j Xs))) = length (stored s)"
proof (cases rule: call_snd_cases[of sn s j Xs])
  case (recomputed l L s3 so)
  then show ?thesis using grow_stride_frame[OF recomputed(2)] by (simp add: advance_frame)
qed (simp_all add: advance_frame)

lemma call_it:
  "it (snd (Steps_AS_call sn s j Xs)) = it s \<or>
   (it (snd (Steps_AS_call sn s j Xs)) = it s + 1 \<and> j = advance_index s)"
proof (cases rule: call_snd_cases[of sn s j Xs])
  case (recomputed l L s3 so)
  then show ?thesis using grow_stride_frame[OF recomputed(2)] by (simp add: advance_frame)
qed (simp_all add: advance_frame)

lemma call_stride:
  assumes inv: "list_all (\<lambda>x. 1 \<le> x \<and> x \<le> max_stride s) (stride s)"
  shows "list_all (\<lambda>x. 1 \<le> x \<and> x \<le> max_stride s) (stride (snd (Steps_AS_call sn s j Xs))) \<and>
         list_all2 (\<le>) (stride s) (stride (snd (Steps_AS_call sn s j Xs)))"
proof (cases rule: call_snd_cases[of sn s j Xs])
  case (recomputed l L s3 so)
  have "list_all (\<lambda>x. 1 \<le> x \<and> x \<le> max_stride (advance (s\<lparr>last_it := l\<rparr>) j))
          (stride (advance (s\<lparr>last_it := l\<rparr>) j))"
    using inv by (simp add: advance_frame)
  from grow_stride_invariant[OF recomputed(2) this] recomputed(4)
  show ?thesis by (simp add: advance_frame)
qed (use inv in \<open>simp_all add: advance_frame list_all2_refl\<close>)

text \<open>The call on an object whose three lists have the same length, for a valid
  non-negative index.\<close>

lemma Steps_AS_call_eq:
  assumes j: "0 \<le> j" "nat j < length (last_it s)"
    and len: "length (stride s) = length (last_it s)" "length (stored s) = length (last_it s)"
  shows "Steps_AS_call sn s j Xs =
    (if it s \<ge> last_it s ! nat j + stride s ! nat j then
       (case lipschitz sn s j Xs of
          Inl e \<Rightarrow> (Inl e, s\<lparr>last_it := (last_it s)[nat j := it s]\<rparr>)
        | Inr L \<Rightarrow>
           (case grow_stride (advance (s\<lparr>last_it := (last_it s)[nat j := it s]\<rparr>) j) j L of
              Inl e \<Rightarrow> (Inl e, advance (s\<lparr>last_it := (last_it s)[nat j := it s]\<rparr>) j)
            | Inr s3 \<Rightarrow> (step_size (s3\<lparr>stored := (stored s)[nat j := Some L]\<rparr>) j,
                         s3\<lparr>stored := (stored s)[nat j := Some L]\<rparr>)))
     else (step_size (advance s j) j, advance s j))"
  unfolding Steps_AS_call_unfold Let_def getitem_def setitem_def
  using j len
  by (auto simp: py_index_nat lipschitz_last_it advance_frame split: sum.splits
        dest!: grow_stride_frame)

lemma step_size_eq:
  assumes "0 \<le> j" "nat j < length (stored s)"
  shows "step_size s j =
    (case stored s ! nat j of
       None \<Rightarrow> Inl TypeError
     | Some v \<Rightarrow> Inr (np_divide (slack s) v))"
  using assms
  by (simp add: step_size_unfold getitem_def py_index_nat split: option.splits)

lemma lipschitz_eq:
  assumes "j = 0 \<or> j = 1" "2 \<le> length Xs"
  shows "lipschitz sn s j Xs =
     Inr (if j = 0 then sn (T_arr (Xs ! 1)) * WAmax s else sn (Xs ! 0) * WSmax s)"
  using assms by (auto simp: lipschitz_def getitem_def py_index_def Let_def)

text \<open>
  The relative-error division of line 89 is not guarded: a due call that passes the gate
  \<^verbatim>\<open>self.it > 1 and self.slack < 1\<close> with a stored bound of 0 divides by it. The quotient is
  not a number, the test of line 91 fails on it, and the call goes on to store the new
  bound with the stride as it was.
\<close>

lemma grow_stride_zero:
  assumes "getitem (stored s) j = Inr (Some 0)"
  shows "np_divide \<bar>0 - L\<bar> 0 = NonFinite \<and> grow_stride s j L = Inr s"
  using assms by (simp add: grow_stride_unfold np_divide_def)

lemma zero_denominator_call:
  assumes j: "j = 0 \<or> j = 1"
    and len: "length (last_it s) = 2" "length (stride s) = 2" "length (stored s) = 2"
    and Xs: "lipschitz sn s j Xs = Inr L"
    and due: "last_it s ! nat j + stride s ! nat j \<le> it s"
    and zero: "stored s ! nat j = Some 0"
  shows "Steps_AS_call sn s j Xs =
           (Inr (np_divide (slack s) L),
            (advance (s\<lparr>last_it := (last_it s)[nat j := it s]\<rparr>) j)
              \<lparr>stored := (stored s)[nat j := Some L]\<rparr>)"
proof -
  have j0: "0 \<le> j" and jl: "nat j < 2" using j by auto
  have a: "nat j < length (last_it s)" and b: "length (stride s) = length (last_it s)"
    and c: "length (stored s) = length (last_it s)" using jl len by simp_all
  have "getitem (stored (advance (s\<lparr>last_it := (last_it s)[nat j := it s]\<rparr>) j)) j = Inr (Some 0)"
    using zero j0 jl len by (simp add: getitem_def py_index_nat advance_frame)
  from grow_stride_zero[OF this, of L]
  have g: "grow_stride (advance (s\<lparr>last_it := (last_it s)[nat j := it s]\<rparr>) j) j L =
      Inr (advance (s\<lparr>last_it := (last_it s)[nat j := it s]\<rparr>) j)" by simp
  show ?thesis
    using due jl len
    by (simp add: Steps_AS_call_eq[OF j0 a b c] Xs g step_size_eq[OF j0] advance_frame)
qed

section \<open>The controller: sequences of calls\<close>

lemma run_frame:
  "slack (run sn s cs) = slack s \<and> WSmax (run sn s cs) = WSmax s \<and>
   WAmax (run sn s cs) = WAmax s \<and> max_stride (run sn s cs) = max_stride s \<and>
   advance_index (run sn s cs) = advance_index s \<and>
   length (last_it (run sn s cs)) = length (last_it s) \<and>
   length (stride (run sn s cs)) = length (stride s) \<and>
   length (stored (run sn s cs)) = length (stored s)"
proof (induction cs arbitrary: s)
  case (Cons c cs)
  obtain j Xs where c: "c = (j, Xs)" by (cases c)
  show ?case
    using Cons[of "snd (Steps_AS_call sn s j Xs)"] call_frame[of sn s j Xs]
    by (simp add: c)
qed simp

lemma run_it:
  "it s \<le> it (run sn s cs) \<and>
   it (run sn s cs) \<le> it s + int (length (filter (\<lambda>c. fst c = advance_index s) cs))"
proof (induction cs arbitrary: s)
  case (Cons c cs)
  obtain j Xs where c: "c = (j, Xs)" by (cases c)
  show ?case
    using Cons[of "snd (Steps_AS_call sn s j Xs)"] call_frame[of sn s j Xs] call_it[of sn s j Xs]
    by (auto simp add: c)
qed simp

lemma run_stride:
  assumes "list_all (\<lambda>x. 1 \<le> x \<and> x \<le> max_stride s) (stride s)"
  shows "list_all (\<lambda>x. 1 \<le> x \<and> x \<le> max_stride s) (stride (run sn s cs))"
  using assms
proof (induction cs arbitrary: s)
  case (Cons c cs)
  obtain j Xs where c: "c = (j, Xs)" by (cases c)
  show ?case
    using Cons.IH[of "snd (Steps_AS_call sn s j Xs)"] call_frame[of sn s j Xs]
      call_stride[OF Cons.prems, of sn j Xs]
    by (simp add: c)
qed simp

text \<open>What the constructor leaves in the object when it succeeds.\<close>

lemma init_Inr:
  assumes "Steps_AS_init sl Wmax ms uo wa ws = Inr s0"
  shows "slack s0 = sl \<and> max_stride s0 = ms \<and> it s0 = 0 \<and> stride s0 = [1, 1] \<and>
         last_it s0 = [- 1, - 1] \<and> stored s0 = [None, None] \<and> 0 < sl \<and> sl \<le> 1"
  using assms unfolding Steps_AS_init_def Let_def replicate_2
  by (auto split: if_splits sum.splits option.splits prod.splits)

text \<open>The three lists keep their two entries, whatever is called.\<close>

lemma reachable_lengths:
  assumes "Steps_AS_init sl Wmax ms uo wa ws = Inr s0"
  shows "length (last_it (run sn s0 calls)) = 2 \<and> length (stride (run sn s0 calls)) = 2 \<and>
         length (stored (run sn s0 calls)) = 2"
  using init_Inr[OF assms] run_frame[of sn s0 calls] by simp

text \<open>
  Claim C3. The shared counter \<open>it\<close> never decreases: one call leaves it as it was or adds
  exactly 1, and it adds 1 only when the factor index of the call equals \<open>advance_index\<close>
  (whichever branch the call takes, and also when it raises). Over a sequence of calls the
  counter does not decrease and grows by at most the number of calls whose index is
  \<open>advance_index\<close>.
\<close>

theorem it_monotone:
  "(it (snd (Steps_AS_call sn s j Xs)) = it s \<or>
    (it (snd (Steps_AS_call sn s j Xs)) = it s + 1 \<and> j = advance_index s)) \<and>
   it s \<le> it (run sn s calls) \<and>
   it (run sn s calls) \<le> it s + int (length (filter (\<lambda>c. fst c = advance_index s) calls))"
  using call_it[of sn s j Xs] run_it[of s sn calls] by simp

section \<open>The controller: what one call does\<close>

text \<open>
  Claim C1 at its failing input: the default object called with \<open>j = 1, 1, 0\<close>. Two calls
  for factor 1 bring \<open>it\<close> to 2. The first call for factor 0 is then due: it sets
  \<open>last[0] = 2\<close> and computes \<open>L = 3\<close>, but line 89 reads \<open>stored[0]\<close>, which is still
  \<^verbatim>\<open>None\<close>. The call raises \<^verbatim>\<open>TypeError\<close>: the recomputed bound is not stored and no step
  size is returned. This is the defect of claim C4.
\<close>

theorem recompute_not_stored:
  "Steps_AS_init (9 / 10) None 100 None None None = Inr default_ctrl \<and>
   run norm11 default_ctrl [(1, Xs11 2 3), (1, Xs11 2 3)] =
     default_ctrl\<lparr>it := 2, last_it := [- 1, 1], stored := [None, Some 2]\<rparr> \<and>
   Steps_AS_call norm11 (default_ctrl\<lparr>it := 2, last_it := [- 1, 1], stored := [None, Some 2]\<rparr>)
       0 (Xs11 2 3) =
     (Inl TypeError, default_ctrl\<lparr>it := 2, last_it := [2, 1], stored := [None, Some 2]\<rparr>)"
  by (simp add: eval_defs)

text \<open>
  On the paths that this defect does not touch, the call is the one that the claim
  describes. For a call \<open>(j, Xs)\<close> with \<open>j\<close> 0 or 1 and both factors in \<open>Xs\<close>, on an object
  whose three lists have two entries (as they have in every state that the constructor and
  the calls produce): when \<open>it < last[j] + stride[j]\<close> nothing is recomputed (\<open>last\<close>,
  \<open>stride\<close> and \<open>stored\<close> stay as they are); when \<open>it \<ge> last[j] + stride[j]\<close> the call sets
  \<open>last[j] = it\<close>, and it stores \<open>L = spectral_norm(Xs[1].T) * WAmax\<close> (for \<open>j = 0\<close>) or
  \<open>L = spectral_norm(Xs[0]) * WSmax\<close> (for \<open>j = 1\<close>) in \<open>stored[j]\<close> provided the
  relative-error computation is skipped (not both \<open>it > 1\<close> after the advance and
  \<open>slack < 1\<close>) or finds a stored bound. In these cases, and when nothing is recomputed,
  the outcome of the call is that of line 99 on the entry that \<open>stored[j]\<close> holds after the
  call, which for a stored bound \<open>v\<close> is the quotient \<open>slack / v\<close>.
\<close>

lemma call_with_stored_bound:
  fixes s :: Steps_AS and sn j Xs
  defines "k \<equiv> nat j"
    and "r \<equiv> fst (Steps_AS_call sn s j Xs)"
    and "s' \<equiv> snd (Steps_AS_call sn s j Xs)"
    and "L \<equiv> (if j = 0 then sn (T_arr (Xs ! 1)) * WAmax s else sn (Xs ! 0) * WSmax s)"
  assumes j: "j = 0 \<or> j = 1"
    and len: "length (last_it s) = 2" "length (stride s) = 2" "length (stored s) = 2"
    and Xs: "2 \<le> length Xs"
  shows "(\<not> last_it s ! k + stride s ! k \<le> it s \<longrightarrow>
            last_it s' = last_it s \<and> stride s' = stride s \<and> stored s' = stored s \<and>
            r = step_size s' j) \<and>
         (last_it s ! k + stride s ! k \<le> it s \<longrightarrow> last_it s' ! k = it s) \<and>
         (last_it s ! k + stride s ! k \<le> it s \<and>
            (\<not> (1 < it (advance s j) \<and> slack s < 1) \<or> stored s ! k \<noteq> None) \<longrightarrow>
            stored s' ! k = Some L \<and> r = step_size s' j) \<and>
         (\<forall>v. stored s' ! k = Some v \<longrightarrow>
            step_size s' j = Inr (if v = 0 then NonFinite else Finite (slack s / v)))"
proof -
  let ?k = "nat j"
  let ?L = "if j = 0 then sn (T_arr (Xs ! 1)) * WAmax s else sn (Xs ! 0) * WSmax s"
  let ?s1 = "advance (s\<lparr>last_it := (last_it s)[?k := it s]\<rparr>) j"
  have j0: "0 \<le> j" and jl: "nat j < 2" using j by auto
  have a: "nat j < length (last_it s)" and b: "length (stride s) = length (last_it s)"
    and c: "length (stored s) = length (last_it s)" using jl len by simp_all
  have eq: "Steps_AS_call sn s j Xs =
    (if it s \<ge> last_it s ! ?k + stride s ! ?k then
       (case grow_stride ?s1 j ?L of
          Inl e \<Rightarrow> (Inl e, ?s1)
        | Inr s3 \<Rightarrow> (step_size (s3\<lparr>stored := (stored s)[?k := Some ?L]\<rparr>) j,
                     s3\<lparr>stored := (stored s)[?k := Some ?L]\<rparr>))
     else (step_size (advance s j) j, advance s j))"
    by (simp only: Steps_AS_call_eq[OF j0 a b c] lipschitz_eq[OF j Xs] sum.case)
  have len': "length (stored s') = 2"
    using call_frame[of sn s j Xs] len by (simp add: s'_def)
  have sl: "slack s' = slack s" using call_frame[of sn s j Xs] by (simp add: s'_def)
  have c4: "step_size s' j =
           (case stored s' ! k of
              None \<Rightarrow> Inl TypeError
            | Some v \<Rightarrow> Inr (if v = 0 then NonFinite else Finite (slack s / v)))"
    using step_size_eq[OF j0, of s'] jl len' sl
    by (simp add: k_def np_divide_def split: option.splits)
  have c1: "\<not> last_it s ! k + stride s ! k \<le> it s \<Longrightarrow>
            last_it s' = last_it s \<and> stride s' = stride s \<and> stored s' = stored s \<and>
            r = step_size s' j"
    unfolding r_def s'_def k_def eq by (simp add: advance_frame)
  have c2: "last_it s' ! k = it s" if due: "last_it s ! k + stride s ! k \<le> it s"
  proof (cases "grow_stride ?s1 j ?L")
    case (Inl e)
    then show ?thesis unfolding s'_def eq using due jl len by (simp add: k_def advance_frame)
  next
    case (Inr s3)
    with grow_stride_frame[OF Inr] show ?thesis
      unfolding s'_def eq using due jl len by (simp add: k_def advance_frame)
  qed
  have c3: "stored s' ! k = Some L \<and> r = step_size s' j"
    if due: "last_it s ! k + stride s ! k \<le> it s"
      and ok: "\<not> (1 < it (advance s j) \<and> slack s < 1) \<or> stored s ! k \<noteq> None"
  proof -
    have "\<exists>s3. grow_stride ?s1 j ?L = Inr s3"
      using ok j0 jl len unfolding grow_stride_eq
      by (auto simp: advance_mark py_index_nat k_def)
    then obtain s3 where "grow_stride ?s1 j ?L = Inr s3" ..
    then show ?thesis
      unfolding r_def s'_def eq using due jl len by (simp add: k_def L_def)
  qed
  have c4': "\<forall>v. stored s' ! k = Some v \<longrightarrow>
            step_size s' j = Inr (if v = 0 then NonFinite else Finite (slack s / v))"
    using c4 by simp
  show ?thesis using c1 c2 c3 c4' by blast
qed

section \<open>The controller: reading \<open>stored\<close>\<close>

text \<open>
  A call leaves the entries of the other factor alone, so until a factor is first called
  its entries are those of the constructor, \<open>last = -1\<close>, \<open>stride = 1\<close> and no stored bound,
  and since \<open>it\<close> starts at 0 and never decreases, the first call for the factor is due.
\<close>

lemma grow_stride_other:
  assumes "grow_stride s j L = Inr s'" "py_index (length (stride s)) j \<noteq> Some k"
  shows "stride s' ! k = stride s ! k"
  using assms unfolding grow_stride_eq
  by (auto split: if_splits option.splits)

lemma call_other_entry:
  assumes len: "length (last_it s) = 2" "length (stride s) = 2" "length (stored s) = 2"
    and nk: "py_index 2 j \<noteq> Some k"
  shows "last_it (snd (Steps_AS_call sn s j Xs)) ! k = last_it s ! k \<and>
         stride (snd (Steps_AS_call sn s j Xs)) ! k = stride s ! k \<and>
         stored (snd (Steps_AS_call sn s j Xs)) ! k = stored s ! k"
proof (cases "py_index 2 j")
  case None
  then show ?thesis using len by (simp add: Steps_AS_call_unfold getitem_def)
next
  case (Some k')
  with nk have ne: "k' \<noteq> k" by simp
  have g: "stride s3 ! k = stride s ! k \<and> last_it s3 = l \<and> stored s3 = stored s"
    if "grow_stride (advance (s\<lparr>last_it := l\<rparr>) j) j L = Inr s3" for l L s3
    using grow_stride_other[OF that, of k] grow_stride_frame[OF that] nk len
    by (simp add: advance_frame)
  show ?thesis
    unfolding Steps_AS_call_unfold Let_def getitem_def setitem_def
    using len Some ne
    by (auto simp: advance_frame split: sum.splits dest!: g)
qed

lemma run_other_entry:
  assumes len: "length (last_it s) = 2" "length (stride s) = 2" "length (stored s) = 2"
    and nk: "list_all (\<lambda>c. py_index 2 (fst c) \<noteq> Some k) calls"
  shows "last_it (run sn s calls) ! k = last_it s ! k \<and>
         stride (run sn s calls) ! k = stride s ! k \<and>
         stored (run sn s calls) ! k = stored s ! k"
  using assms
proof (induction calls arbitrary: s)
  case (Cons c calls)
  obtain j Xs where c: "c = (j, Xs)" by (cases c)
  from Cons.prems(4) have nj: "py_index 2 j \<noteq> Some k"
    and rest: "list_all (\<lambda>c. py_index 2 (fst c) \<noteq> Some k) calls" by (simp_all add: c)
  have len': "length (last_it (snd (Steps_AS_call sn s j Xs))) = 2"
    "length (stride (snd (Steps_AS_call sn s j Xs))) = 2"
    "length (stored (snd (Steps_AS_call sn s j Xs))) = 2"
    using call_frame[of sn s j Xs] Cons.prems(1-3) by simp_all
  show ?case
    using Cons.IH[OF len' rest] call_other_entry[OF Cons.prems(1-3) nj, of sn Xs]
    by (simp add: c)
qed simp

lemma first_call_due:
  assumes init: "Steps_AS_init sl Wmax ms uo wa ws = Inr s0"
    and k: "k < 2"
    and nk: "list_all (\<lambda>c. py_index 2 (fst c) \<noteq> Some k) calls"
  shows "last_it (run sn s0 calls) ! k + stride (run sn s0 calls) ! k \<le> it (run sn s0 calls) \<and>
         stored (run sn s0 calls) ! k = stored s0 ! k"
proof -
  note i = init_Inr[OF init]
  have len: "length (last_it s0) = 2" "length (stride s0) = 2" "length (stored s0) = 2"
    using i by simp_all
  have "0 \<le> it (run sn s0 calls)" using run_it[of s0 sn calls] i by simp
  moreover have "last_it s0 ! k + stride s0 ! k \<le> 0"
    using i k by (auto simp: less_2_cases_iff)
  ultimately show ?thesis using run_other_entry[OF len nk, of sn] by simp
qed

text \<open>
  Claim C4 at its failing input: the default object (\<open>advance_index = 1\<close>) called with
  \<open>j = 1, 1, 0\<close>. The third call is the first one for factor 0 and it is due, but \<open>it\<close> is
  already 2, so the gate of line 88 is open and line 89 reads \<open>stored[0]\<close> before anything
  was written there: \<^verbatim>\<open>TypeError\<close>. The entry stays undefined while \<open>last[0]\<close> was set, so
  a further call for factor 0 is not due and line 99 reads the undefined entry as well.
\<close>

theorem uninitialised_read:
  "Steps_AS_init (9 / 10) None 100 None None None = Inr default_ctrl \<and>
   fst (Steps_AS_call norm11 (run norm11 default_ctrl [(1, Xs11 2 3), (1, Xs11 2 3)]) 0 (Xs11 2 3))
     = Inl TypeError \<and>
   stored (run norm11 default_ctrl [(1, Xs11 2 3), (1, Xs11 2 3), (0, Xs11 2 3)]) ! 0 = None \<and>
   fst (Steps_AS_call norm11
          (run norm11 default_ctrl [(1, Xs11 2 3), (1, Xs11 2 3), (0, Xs11 2 3)]) 0 (Xs11 2 3))
     = Inl TypeError"
  by (simp add: eval_defs)


text \<open>
  A due call for \<open>j\<close> 0 or 1 that finds the gate of line 88 open and a stored bound of 0
  divides by it on line 89: the first warning of the call is the one of that line.
\<close>

lemma zero_denominator_warning:
  assumes j: "j = 0 \<or> j = 1"
    and len: "length (last_it s) = 2" "length (stride s) = 2" "length (stored s) = 2"
    and Xs: "lipschitz sn s j Xs = Inr L"
    and due: "last_it s ! nat j + stride s ! nat j \<le> it s"
    and gate: "1 < it (advance s j)" "slack s < 1"
    and zero: "stored s ! nat j = Some 0"
  shows "snd (Steps_AS_call_traced sn s j Xs) =
           np_warnings 89 \<bar>0 - L\<bar> 0 @ np_warnings 99 (slack s) L"
proof -
  let ?s2 = "advance (s\<lparr>last_it := (last_it s)[nat j := it s]\<rparr>) j"
  have j0: "0 \<le> j" and jl: "nat j < 2" using j by auto
  have g: "grow_stride_traced ?s2 j L = (Inr ?s2, np_warnings 89 \<bar>0 - L\<bar> 0)"
    using gate zero j0 jl len
    by (simp add: grow_stride_traced_def getitem_def py_index_nat advance_mark np_divide_def)
  have st: "step_size_traced (?s2\<lparr>stored := (stored s)[nat j := Some L]\<rparr>) j =
      (Inr (np_divide (slack s) L), np_warnings 99 (slack s) L)"
    using j0 jl len by (simp add: step_size_traced_def getitem_def py_index_nat advance_mark)
  show ?thesis
    using due j0 jl len
    by (simp add: Steps_AS_call_traced_def getitem_def setitem_def py_index_nat
        lipschitz_last_it Xs g st advance_mark)
qed

text \<open>
  Claim C5. A state with \<open>stored[0] = 0\<close> is reachable from the default object: a first
  call for factor 0 whose factor \<open>S\<close> is the zero matrix stores \<open>L = 0\<close>. Two calls for
  factor 1 later, a call for factor 0 is due with \<open>it > 1\<close> and \<open>slack < 1\<close>, and its new
  bound is \<open>L = 5\<close>. Nothing guards the division of line 89: the call evaluates the
  relative error \<open>\<bar>0 - 5\<bar> / 0\<close> with a zero denominator, which is not a number and issues
  the divide-by-zero warning of line 89, the only warning of the call (the division of
  line 99 is by 5). The call itself completes, with the stride unchanged and the new bound
  stored.
\<close>

theorem zero_denominator_reachable:
  "\<exists>calls Xs. Steps_AS_init (9 / 10) None 100 None None None = Inr default_ctrl \<and>
     stored (run norm11 default_ctrl calls) ! 0 = Some 0 \<and>
     last_it (run norm11 default_ctrl calls) ! 0 + stride (run norm11 default_ctrl calls) ! 0
       \<le> it (run norm11 default_ctrl calls) \<and>
     1 < it (advance (run norm11 default_ctrl calls) 0) \<and>
     slack (run norm11 default_ctrl calls) < 1 \<and>
     lipschitz norm11 (run norm11 default_ctrl calls) 0 Xs = Inr 5 \<and>
     np_divide \<bar>0 - 5\<bar> 0 = NonFinite \<and>
     Steps_AS_call_traced norm11 (run norm11 default_ctrl calls) 0 Xs =
       ((Inr (Finite (9 / 50)),
         default_ctrl\<lparr>it := 2, last_it := [2, 1], stored := [Some 5, Some 2]\<rparr>),
        [DivideByZero 89]) \<and>
     Steps_AS_call norm11 (run norm11 default_ctrl calls) 0 Xs =
       (Inr (Finite (9 / 50)),
        default_ctrl\<lparr>it := 2, last_it := [2, 1], stored := [Some 5, Some 2]\<rparr>)"
proof (intro exI conjI)
  let ?calls = "[(0, Xs11 2 0), (1, Xs11 2 0), (1, Xs11 2 0)]"
  let ?s = "default_ctrl\<lparr>it := 2, last_it := [0, 1], stored := [Some 0, Some 2]\<rparr>"
  have run: "run norm11 default_ctrl ?calls = ?s"
    by (simp add: eval_defs)
  show "Steps_AS_init (9 / 10) None 100 None None None = Inr default_ctrl"
    by (simp add: eval_defs)
  show "stored (run norm11 default_ctrl ?calls) ! 0 = Some 0" by (simp only: run, simp)
  show "last_it (run norm11 default_ctrl ?calls) ! 0 + stride (run norm11 default_ctrl ?calls) ! 0
       \<le> it (run norm11 default_ctrl ?calls)" by (simp only: run, simp add: default_ctrl_def)
  show "1 < it (advance (run norm11 default_ctrl ?calls) 0)"
    by (simp only: run, simp add: default_ctrl_def advance_def)
  show "slack (run norm11 default_ctrl ?calls) < 1" by (simp only: run, simp add: default_ctrl_def)
  show L: "lipschitz norm11 (run norm11 default_ctrl ?calls) 0 (Xs11 2 5) = Inr 5"
    by (simp only: run, simp add: eval_defs)
  show "np_divide \<bar>0 - 5\<bar> 0 = NonFinite" by (simp add: np_divide_def)
  have c: "Steps_AS_call norm11 ?s 0 (Xs11 2 5) =
     (Inr (np_divide (slack ?s) 5),
      (advance (?s\<lparr>last_it := (last_it ?s)[nat 0 := it ?s]\<rparr>) 0)
        \<lparr>stored := (stored ?s)[nat 0 := Some 5]\<rparr>)"
    by (rule zero_denominator_call)
       (use L in \<open>simp_all only: run\<close>, simp_all add: default_ctrl_def)
  then show c': "Steps_AS_call norm11 (run norm11 default_ctrl ?calls) 0 (Xs11 2 5) =
       (Inr (Finite (9 / 50)),
        default_ctrl\<lparr>it := 2, last_it := [2, 1], stored := [Some 5, Some 2]\<rparr>)"
    by (simp only: run) (simp add: default_ctrl_def advance_def np_divide_def)
  have w: "snd (Steps_AS_call_traced norm11 ?s 0 (Xs11 2 5)) =
      np_warnings 89 \<bar>0 - 5\<bar> 0 @ np_warnings 99 (slack ?s) 5"
    by (rule zero_denominator_warning)
       (use L in \<open>simp_all only: run\<close>, simp_all add: default_ctrl_def advance_def)
  have "Steps_AS_call_traced norm11 ?s 0 (Xs11 2 5) =
      (Steps_AS_call norm11 ?s 0 (Xs11 2 5), snd (Steps_AS_call_traced norm11 ?s 0 (Xs11 2 5)))"
    by (simp add: Steps_AS_call_def)
  then show "Steps_AS_call_traced norm11 (run norm11 default_ctrl ?calls) 0 (Xs11 2 5) =
       ((Inr (Finite (9 / 50)),
         default_ctrl\<lparr>it := 2, last_it := [2, 1], stored := [Some 5, Some 2]\<rparr>),
        [DivideByZero 89])"
    using c' w by (simp only: run) (simp add: np_warnings_def default_ctrl_def)
qed

section \<open>The controller: the stride\<close>

lemma call_growth:
  assumes j: "j = 0 \<or> j = 1"
    and len: "length (last_it s) = 2" "length (stride s) = 2" "length (stored s) = 2"
    and Xs: "lipschitz sn s j Xs = Inr L"
    and pos: "1 \<le> stride s ! nat j"
    and due: "last_it s ! nat j + stride s ! nat j \<le> it s"
    and gate: "1 < it (advance s j)" "slack s < 1"
    and v: "stored s ! nat j = Some v"
    and rel: "0 < \<bar>v - L\<bar> / v" "\<bar>v - L\<bar> / v < (1 - slack s) / 2"
  shows "stride (snd (Steps_AS_call sn s j Xs)) ! nat j =
           min (max_stride s) (stride s ! nat j +
              max 1 \<lfloor>(1 - slack s) / 2 / (\<bar>v - L\<bar> / v) * real_of_int (stride s ! nat j)\<rfloor>)"
proof -
  have j0: "0 \<le> j" and jl: "nat j < 2" using j by auto
  have a: "nat j < length (last_it s)" and b: "length (stride s) = length (last_it s)"
    and c: "length (stored s) = length (last_it s)" using jl len by simp_all
  have v0: "v \<noteq> 0" using rel(1) by auto
  have x: "0 \<le> (1 - slack s) / 2" using gate(2) by simp
  have y: "0 \<le> \<bar>v - L\<bar> / v" using rel(1) by (rule less_imp_le)
  have z: "0 \<le> real_of_int (stride s ! nat j)" using pos by simp
  have nn: "0 \<le> (1 - slack s) / 2 / (\<bar>v - L\<bar> / v) * real_of_int (stride s ! nat j)"
    by (rule mult_nonneg_nonneg[OF divide_nonneg_nonneg[OF x y] z])
  have pi: "py_int ((1 - slack s) / 2 / (\<bar>v - L\<bar> / v) * real_of_int (stride s ! nat j)) =
      \<lfloor>(1 - slack s) / 2 / (\<bar>v - L\<bar> / v) * real_of_int (stride s ! nat j)\<rfloor>"
    using nn by (simp only: py_int_def if_True)
  have g0: "grow_stride (advance (s\<lparr>last_it := (last_it s)[nat j := it s]\<rparr>) j) j L =
     Inr ((advance (s\<lparr>last_it := (last_it s)[nat j := it s]\<rparr>) j)
        \<lparr>stride := (stride s)[nat j := min (max_stride s) (stride s ! nat j +
              max 1 (py_int ((1 - slack s) / 2 / (\<bar>v - L\<bar> / v)
                 * real_of_int (stride s ! nat j))))]\<rparr>)"
    unfolding grow_stride_eq using gate v v0 rel j0 jl len
    by (simp add: advance_mark py_index_nat)
  have g: "grow_stride (advance (s\<lparr>last_it := (last_it s)[nat j := it s]\<rparr>) j) j L =
     Inr ((advance (s\<lparr>last_it := (last_it s)[nat j := it s]\<rparr>) j)
        \<lparr>stride := (stride s)[nat j := min (max_stride s) (stride s ! nat j +
              max 1 \<lfloor>(1 - slack s) / 2 / (\<bar>v - L\<bar> / v) * real_of_int (stride s ! nat j)\<rfloor>)]\<rparr>)"
    using g0 by (simp only: pi)
  show ?thesis
    using due jl len by (simp add: Steps_AS_call_eq[OF j0 a b c] Xs g)
qed

text \<open>
  Claim C2, as stated, fails: \<open>max_stride\<close> is not validated. With \<^verbatim>\<open>max_stride=0\<close> the fresh
  object already has \<open>stride[j] = 1 > max_stride\<close>, and the first growth of \<open>stride[1]\<close> (a
  relative error of \<open>1/40\<close> against a budget of \<open>1/20\<close>) clamps it to 0: it decreases and
  falls below 1.
\<close>

theorem stride_invariant_counterexample:
  "Steps_AS_init (9 / 10) None 0 None None None = Inr (default_ctrl\<lparr>max_stride := 0\<rparr>) \<and>
   stride (default_ctrl\<lparr>max_stride := 0\<rparr>) = [1, 1] \<and>
   run norm11 (default_ctrl\<lparr>max_stride := 0\<rparr>) [(1, Xs11 2 0), (1, Xs11 (41 / 20) 0)] =
     default_ctrl\<lparr>max_stride := 0, it := 2, stride := [1, 0], last_it := [- 1, 1],
       stored := [None, Some (41 / 20)]\<rparr>"
  by (simp add: eval_defs)

text \<open>
  Claim C2, amended by the assumption \<open>max_stride \<ge> 1\<close>. In every state \<open>s\<close> that a
  sequence of calls reaches from a constructed controller, both strides lie between 1 and
  \<open>max_stride\<close>, and one more call \<open>(j, Xs)\<close> decreases neither of them. When that call is
  a recompute for \<open>j\<close> 0 or 1 with \<open>it > 1\<close> after the advance, \<open>slack < 1\<close> and
  \<open>0 < rel_error < budget\<close>, where \<open>rel_error = \<bar>stored[j] - L\<bar> / stored[j]\<close> and
  \<open>budget = (1 - slack) / 2\<close>, the new stride is
  \<open>min(max_stride, stride[j] + max(1, floor(budget / rel_error * stride[j])))\<close>.
\<close>

theorem stride_invariant:
  fixes sn s0 calls j Xs
  defines "s \<equiv> run sn s0 calls"
  defines "s' \<equiv> snd (Steps_AS_call sn s j Xs)"
  assumes init: "Steps_AS_init sl Wmax ms uo wa ws = Inr s0"
    and ms: "1 \<le> ms"
  shows "max_stride s = ms \<and> length (stride s) = 2 \<and>
         list_all (\<lambda>x. 1 \<le> x \<and> x \<le> ms) (stride s) \<and>
         list_all2 (\<le>) (stride s) (stride s') \<and>
         ((j = 0 \<or> j = 1) \<and> lipschitz sn s j Xs = Inr L \<and>
            last_it s ! nat j + stride s ! nat j \<le> it s \<and>
            1 < it (advance s j) \<and> slack s < 1 \<and> stored s ! nat j = Some v \<and>
            0 < \<bar>v - L\<bar> / v \<and> \<bar>v - L\<bar> / v < (1 - slack s) / 2 \<longrightarrow>
          stride s' ! nat j =
            min ms (stride s ! nat j +
              max 1 \<lfloor>(1 - slack s) / 2 / (\<bar>v - L\<bar> / v) * real_of_int (stride s ! nat j)\<rfloor>))"
proof -
  note i = init_Inr[OF init]
  have fr: "max_stride s = ms" "length (last_it s) = 2" "length (stride s) = 2"
    "length (stored s) = 2"
    using run_frame[of sn s0 calls] i by (simp_all add: s_def)
  have "list_all (\<lambda>x. 1 \<le> x \<and> x \<le> max_stride s0) (stride s0)" using i ms by simp
  from run_stride[OF this, of sn calls]
  have inv: "list_all (\<lambda>x. 1 \<le> x \<and> x \<le> ms) (stride s)" using i by (simp add: s_def)
  then have inv': "list_all (\<lambda>x. 1 \<le> x \<and> x \<le> max_stride s) (stride s)" using fr by simp
  have mono: "list_all2 (\<le>) (stride s) (stride s')"
    using call_stride[OF inv', of sn j Xs] by (simp add: s'_def)
  have grow: "stride s' ! nat j =
            min ms (stride s ! nat j +
              max 1 \<lfloor>(1 - slack s) / 2 / (\<bar>v - L\<bar> / v) * real_of_int (stride s ! nat j)\<rfloor>)"
    if h: "(j = 0 \<or> j = 1) \<and> lipschitz sn s j Xs = Inr L \<and>
            last_it s ! nat j + stride s ! nat j \<le> it s \<and>
            1 < it (advance s j) \<and> slack s < 1 \<and> stored s ! nat j = Some v \<and>
            0 < \<bar>v - L\<bar> / v \<and> \<bar>v - L\<bar> / v < (1 - slack s) / 2"
  proof -
    from h have "nat j < 2" by auto
    with inv fr have "1 \<le> stride s ! nat j" by (simp add: list_all_length)
    with h show ?thesis
      unfolding s'_def using call_growth[of j s sn Xs L v] fr by simp
  qed
  show ?thesis using fr inv mono grow by blast
qed

theorem stride_invariant_witness:
  "Steps_AS_init (9 / 10) None 100 None None None = Inr default_ctrl \<and> (1::int) \<le> 100 \<and>
   ((1::int) = 0 \<or> (1::int) = 1) \<and>
   lipschitz norm11 (run norm11 default_ctrl [(1, Xs11 2 0)]) 1 (Xs11 (41 / 20) 0) = Inr (41 / 20) \<and>
   last_it (run norm11 default_ctrl [(1, Xs11 2 0)]) ! nat 1 +
     stride (run norm11 default_ctrl [(1, Xs11 2 0)]) ! nat 1
       \<le> it (run norm11 default_ctrl [(1, Xs11 2 0)]) \<and>
   1 < it (advance (run norm11 default_ctrl [(1, Xs11 2 0)]) 1) \<and>
   slack (run norm11 default_ctrl [(1, Xs11 2 0)]) < 1 \<and>
   stored (run norm11 default_ctrl [(1, Xs11 2 0)]) ! nat 1 = Some 2 \<and>
   (0::real) < \<bar>2 - 41 / 20\<bar> / 2 \<and>
   \<bar>2 - 41 / 20\<bar> / 2 < (1 - slack (run norm11 default_ctrl [(1, Xs11 2 0)])) / 2 \<and>
   list_all (\<lambda>x. 1 \<le> x \<and> x \<le> 100) (stride (run norm11 default_ctrl [(1, Xs11 2 0)])) \<and>
   list_all2 (\<le>) (stride (run norm11 default_ctrl [(1, Xs11 2 0)]))
     (stride (snd (Steps_AS_call norm11 (run norm11 default_ctrl [(1, Xs11 2 0)]) 1
        (Xs11 (41 / 20) 0)))) \<and>
   stride (snd (Steps_AS_call norm11 (run norm11 default_ctrl [(1, Xs11 2 0)]) 1
        (Xs11 (41 / 20) 0))) ! nat 1 = 3"
proof -
  have init: "Steps_AS_init (9 / 10) None 100 None None None = Inr default_ctrl"
    by (simp add: eval_defs)
  have ms: "(1::int) \<le> 100" by simp
  have run: "run norm11 default_ctrl [(1, Xs11 2 0)] =
      default_ctrl\<lparr>it := 1, last_it := [- 1, 0], stored := [None, Some 2]\<rparr>"
    by (simp add: eval_defs)
  have fl: "\<lfloor>(1 - 9 / 10) / 2 / (\<bar>2 - 41 / 20\<bar> / 2) * real_of_int 1\<rfloor> = (2::int)"
    by simp
  show ?thesis
    using stride_invariant[OF init ms, of norm11 "[(1, Xs11 2 0)]" 1 "Xs11 (41 / 20) 0" "41 / 20" 2]
      init
    unfolding run
    by (simp add: default_ctrl_def advance_def lipschitz_def getitem_def py_index_def Xs11_def
        norm11_def of_rows_def)
qed

section \<open>The controller: construction\<close>

lemma getitem_minus_1:
  "getitem xs (- 1) = (if xs = [] then Inl IndexError else Inr (last xs))"
  by (cases xs) (auto simp: getitem_def py_index_def Let_def last_conv_nth)

text \<open>
  Claim C9, as stated, fails in its second half: with a slack in \<open>(0, 1]\<close> the assertion
  passes, but \<^verbatim>\<open>Steps_AS(slack=0.9, update_order=[])\<close> still does not construct an object,
  because \<^verbatim>\<open>update_order[-1]\<close> raises \<^verbatim>\<open>IndexError\<close>.
\<close>

theorem slack_precondition_counterexample:
  "Steps_AS_init (9 / 10) None 100 (Some []) None None = Inl IndexError"
  by (simp add: eval_defs)

text \<open>
  Claim C9, amended. For every slack outside \<open>(0, 1]\<close> the constructor fails with
  \<^verbatim>\<open>AssertionError\<close>, whatever the other arguments are, so no object exists that could
  return a step size. For every slack in \<open>(0, 1]\<close> the assertion passes, and construction
  succeeds (with that slack) unless \<open>update_order\<close> is the empty list, in which case it
  raises \<^verbatim>\<open>IndexError\<close>.
\<close>

theorem slack_precondition:
  "(\<not> (0 < sl \<and> sl \<le> 1) \<longrightarrow> Steps_AS_init sl Wmax ms uo wa ws = Inl AssertionError) \<and>
   (0 < sl \<and> sl \<le> 1 \<longrightarrow> Steps_AS_init sl Wmax ms uo wa ws \<noteq> Inl AssertionError) \<and>
   (0 < sl \<and> sl \<le> 1 \<and> uo \<noteq> Some [] \<longrightarrow>
      (\<exists>s. Steps_AS_init sl Wmax ms uo wa ws = Inr s \<and> slack s = sl)) \<and>
   (0 < sl \<and> sl \<le> 1 \<longrightarrow> Steps_AS_init sl Wmax ms (Some []) wa ws = Inl IndexError)"
  unfolding Steps_AS_init_def Let_def getitem_minus_1
  by (auto split: option.splits list.splits prod.splits)

theorem slack_precondition_witness:
  "\<not> (0 < (3 / 2 :: real) \<and> (3 / 2 :: real) \<le> 1) \<and>
   Steps_AS_init (3 / 2) None 100 None None None = Inl AssertionError \<and>
   \<not> (0 < (0 :: real) \<and> (0 :: real) \<le> 1) \<and>
   Steps_AS_init 0 None 100 None None None = Inl AssertionError \<and>
   (0 < (1 :: real) \<and> (1 :: real) \<le> 1 \<and> Some [0, 1] \<noteq> Some ([] :: int list)) \<and>
   (\<exists>s. Steps_AS_init 1 None 100 (Some [0, 1]) None None = Inr s \<and> slack s = 1) \<and>
   Steps_AS_init 1 None 100 (Some []) None None = Inl IndexError"
  using slack_precondition[of "3 / 2" None 100 None None None]
    slack_precondition[of 0 None 100 None None None]
    slack_precondition[of 1 None 100 "Some [0, 1]" None None]
  by simp

section \<open>The composed update\<close>

lemmas array_defs = prox_likelihood_def prox_likelihood_A_def prox_likelihood_S_def
  grad_likelihood_A_def grad_likelihood_S_def delta_data_def weight_mul_def dot_def T_arr_def
  arr_sub_def arr_mul_def broadcast2_def bdim_def bidx_def scalar_mul_def prox_id_def
  prox_plus_def of_rows_def getitem_def py_index_def Let_def Xs11_def

text \<open>
  Claim C6. With the factors \<open>Xs = [A, S]\<close>, the composed update for \<open>j = 0\<close> is
  \<open>prox_A(A - step * grad_likelihood_A(A, S, Y, W), step)\<close> and for \<open>j = 1\<close> it is
  \<open>prox_S(S - step * grad_likelihood_S(S, A, Y, W), step)\<close>, an exception of any part being
  the exception of the whole; the branch for \<open>j = 0\<close> reads only \<open>Xs[1]\<close>, the other only
  \<open>Xs[0]\<close>. With the identity projections and \<open>W = 1\<close> the update for \<open>j = 0\<close> is the plain
  gradient step \<open>A - step * grad_likelihood_A(A, S, Y)\<close>.
\<close>

theorem prox_likelihood_composition:
  "prox_likelihood A step [A', S] (Some 0) Y W prox_S prox_A =
     (case grad_likelihood_A A S Y W of
        Inl e \<Rightarrow> Inl e
      | Inr G \<Rightarrow>
         (case arr_sub A (scalar_mul step G) of
            Inl e \<Rightarrow> Inl e
          | Inr X \<Rightarrow> prox_A X step)) \<and>
   prox_likelihood S step [A, S'] (Some 1) Y W prox_S prox_A =
     (case grad_likelihood_S S A Y W of
        Inl e \<Rightarrow> Inl e
      | Inr G \<Rightarrow>
         (case arr_sub S (scalar_mul step G) of
            Inl e \<Rightarrow> Inl e
          | Inr X \<Rightarrow> prox_S X step)) \<and>
   prox_likelihood A step [A, S] (Some 0) Y (WScalar 1) prox_id prox_id =
     (case grad_likelihood_A A S Y (WScalar 1) of
        Inl e \<Rightarrow> Inl e
      | Inr G \<Rightarrow> arr_sub A (scalar_mul step G))"
  by (auto simp: prox_likelihood_def prox_likelihood_A_def prox_likelihood_S_def prox_id_def
      getitem_def py_index_def Let_def split: sum.splits)

text \<open>
  Claim C10. The A-branch is taken for \<open>j = 0\<close>; every other \<open>j\<close>, the default \<^verbatim>\<open>None\<close>
  included, takes the S-branch: \<open>prox_S\<close> after a gradient step with respect to \<open>S\<close>, with
  \<open>Xs[0]\<close> as the fixed factor. The S-branch does not look at \<open>j\<close>, so no index is rejected.
\<close>

theorem prox_likelihood_dispatch:
  "(j \<noteq> Some 0 \<longrightarrow>
      prox_likelihood X step Xs j Y W prox_S prox_A =
        (case getitem Xs 0 of
           Inl e \<Rightarrow> Inl e
         | Inr A \<Rightarrow> prox_likelihood_S X step A Y prox_S W)) \<and>
   prox_likelihood X step Xs (Some 0) Y W prox_S prox_A =
     (case getitem Xs 1 of
        Inl e \<Rightarrow> Inl e
      | Inr S \<Rightarrow> prox_likelihood_A X step S Y prox_A W)"
  by (simp add: prox_likelihood_def)

theorem prox_likelihood_dispatch_witness:
  "None \<noteq> Some (0::int) \<and> Some 7 \<noteq> Some (0::int) \<and>
   prox_likelihood (of_rows [[2]]) (1 / 4) (Xs11 1 2) None (of_rows [[6]]) (WScalar 1)
       prox_plus prox_plus =
     prox_likelihood_S (of_rows [[2]]) (1 / 4) (of_rows [[1]]) (of_rows [[6]]) prox_plus (WScalar 1) \<and>
   prox_likelihood (of_rows [[2]]) (1 / 4) (Xs11 1 2) (Some 7) (of_rows [[6]]) (WScalar 1)
       prox_plus prox_plus =
     prox_likelihood_S (of_rows [[2]]) (1 / 4) (of_rows [[1]]) (of_rows [[6]]) prox_plus (WScalar 1) \<and>
   map_sum id (\<lambda>R. (nrows R, ncols R, elem R 0 0))
     (prox_likelihood_S (of_rows [[2]]) (1 / 4) (of_rows [[1]]) (of_rows [[6]]) prox_plus (WScalar 1))
     = Inr (1, 1, 3)"
proof -
  have g: "getitem (Xs11 1 2) 0 = Inr (of_rows [[1]])"
    by (simp add: getitem_def py_index_def Xs11_def)
  have v: "map_sum id (\<lambda>R. (nrows R, ncols R, elem R 0 0))
     (prox_likelihood_S (of_rows [[2]]) (1 / 4) (of_rows [[1]]) (of_rows [[6]]) prox_plus (WScalar 1))
     = Inr (1, 1, 3)"
    by (simp add: array_defs)
  show ?thesis
    using prox_likelihood_dispatch[of None "of_rows [[2]]" "1 / 4" "Xs11 1 2" "of_rows [[6]]"
        "WScalar 1" prox_plus prox_plus]
      prox_likelihood_dispatch[of "Some 7" "of_rows [[2]]" "1 / 4" "Xs11 1 2" "of_rows [[6]]"
        "WScalar 1" prox_plus prox_plus] v
    by (simp add: g)
qed

section \<open>The gradient model\<close>

lemma bidx_less: "i < d \<Longrightarrow> bidx d i = i"
  by (auto simp: bidx_def)

lemma bdim_target: "m = n \<or> m = 1 \<Longrightarrow> bdim m n = Some n"
  by (auto simp: bdim_def)

lemma weight_mul_broadcastable:
  assumes "broadcastable W (nrows R) (ncols R)"
  shows "\<exists>D. weight_mul W R = Inr D \<and> nrows D = nrows R \<and> ncols D = ncols R \<and>
           (\<forall>i<nrows R. \<forall>j<ncols R. elem D i j = weight_at W i j * elem R i j)"
  using assms
  by (cases W)
     (auto simp: broadcastable_def weight_mul_def weight_at_def scalar_mul_def arr_mul_def
        broadcast2_def bdim_target bidx_less)

text \<open>
  Claim C7. For \<open>A\<close> of shape \<open>M \<times> K\<close>, \<open>S\<close> of shape \<open>K \<times> N\<close>, \<open>Y\<close> of shape \<open>M \<times> N\<close> and a
  weight \<open>W\<close> broadcastable to \<open>M \<times> N\<close>, none of the three functions raises; the residual
  \<open>D\<close> has shape \<open>M \<times> N\<close> and entries \<open>W[i,j] * ((A S)[i,j] - Y[i,j])\<close>; the gradient with
  respect to \<open>A\<close> is the product of \<open>D\<close> with the transpose of \<open>S\<close>, of shape \<open>M \<times> K\<close>; the
  gradient with respect to \<open>S\<close> is the product of the transpose of \<open>A\<close> with \<open>D\<close>, of shape
  \<open>K \<times> N\<close>. The three are functions of their arguments alone: the model needs no state
  for them, since the source neither reads nor writes anything but its arguments.
\<close>

theorem gradient_model:
  assumes A: "nrows A = M" "ncols A = K"
    and S: "nrows S = K" "ncols S = N"
    and Y: "nrows Y = M" "ncols Y = N"
    and W: "broadcastable W M N"
  shows "\<exists>D. delta_data A S Y W = Inr D \<and> nrows D = M \<and> ncols D = N \<and>
           (\<forall>i<M. \<forall>j<N. elem D i j =
              weight_at W i j * ((\<Sum>k<K. elem A i k * elem S k j) - elem Y i j)) \<and>
           (\<exists>GA. grad_likelihood_A A S Y W = Inr GA \<and> dot D (T_arr S) = Inr GA \<and>
              nrows GA = M \<and> ncols GA = K \<and>
              (\<forall>i<M. \<forall>k<K. elem GA i k = (\<Sum>n<N. elem D i n * elem S k n))) \<and>
           (\<exists>GS. grad_likelihood_S S A Y W = Inr GS \<and> dot (T_arr A) D = Inr GS \<and>
              nrows GS = K \<and> ncols GS = N \<and>
              (\<forall>k<K. \<forall>n<N. elem GS k n = (\<Sum>m<M. elem A m k * elem D m n)))"
proof -
  obtain P where P: "dot A S = Inr P" "nrows P = M" "ncols P = N"
    "\<And>i j. elem P i j = (\<Sum>k<K. elem A i k * elem S k j)"
    using A S by (simp add: dot_def)
  obtain R where R: "arr_sub P Y = Inr R" "nrows R = M" "ncols R = N"
    "\<And>i j. i < M \<Longrightarrow> j < N \<Longrightarrow> elem R i j = elem P i j - elem Y i j"
    using P(2,3) Y by (simp add: arr_sub_def broadcast2_def bdim_target bidx_less)
  from W R(2,3) have "broadcastable W (nrows R) (ncols R)" by simp
  from weight_mul_broadcastable[OF this] obtain D where D: "weight_mul W R = Inr D"
    "nrows D = M" "ncols D = N"
    "\<And>i j. i < M \<Longrightarrow> j < N \<Longrightarrow> elem D i j = weight_at W i j * elem R i j"
    using R(2,3) by auto
  have dd: "delta_data A S Y W = Inr D" by (simp add: delta_data_def P(1) R(1) D(1))
  have el: "\<forall>i<M. \<forall>j<N. elem D i j =
              weight_at W i j * ((\<Sum>k<K. elem A i k * elem S k j) - elem Y i j)"
    by (simp add: D(4) R(4) P(4))
  have ga: "\<exists>GA. grad_likelihood_A A S Y W = Inr GA \<and> dot D (T_arr S) = Inr GA \<and>
              nrows GA = M \<and> ncols GA = K \<and>
              (\<forall>i<M. \<forall>k<K. elem GA i k = (\<Sum>n<N. elem D i n * elem S k n))"
    using D(2,3) S by (simp add: grad_likelihood_A_def dd dot_def T_arr_def)
  have gs: "\<exists>GS. grad_likelihood_S S A Y W = Inr GS \<and> dot (T_arr A) D = Inr GS \<and>
              nrows GS = K \<and> ncols GS = N \<and>
              (\<forall>k<K. \<forall>n<N. elem GS k n = (\<Sum>m<M. elem A m k * elem D m n))"
    using D(2,3) A by (simp add: grad_likelihood_S_def dd dot_def T_arr_def)
  show ?thesis using dd D(2,3) el ga gs by blast
qed

theorem gradient_model_witness:
  "nrows (of_rows [[1, 2], [3, 4]]) = 2 \<and> ncols (of_rows [[1, 2], [3, 4]]) = 2 \<and>
   nrows (of_rows [[1, 0], [1, 1]]) = 2 \<and> ncols (of_rows [[1, 0], [1, 1]]) = 2 \<and>
   nrows (of_rows [[2, 2], [8, 4]]) = 2 \<and> ncols (of_rows [[2, 2], [8, 4]]) = 2 \<and>
   broadcastable (WArray (of_rows [[2, 3]])) 2 2 \<and>
   (\<exists>D. delta_data (of_rows [[1, 2], [3, 4]]) (of_rows [[1, 0], [1, 1]]) (of_rows [[2, 2], [8, 4]])
           (WArray (of_rows [[2, 3]])) = Inr D \<and>
        nrows D = 2 \<and> ncols D = 2 \<and>
        elem D 0 0 = 2 \<and> elem D 0 1 = 0 \<and> elem D 1 0 = - 2 \<and> elem D 1 1 = 0 \<and>
        (\<exists>GA. grad_likelihood_A (of_rows [[1, 2], [3, 4]]) (of_rows [[1, 0], [1, 1]])
                 (of_rows [[2, 2], [8, 4]]) (WArray (of_rows [[2, 3]])) = Inr GA \<and>
           elem GA 0 0 = 2 \<and> elem GA 0 1 = 2 \<and> elem GA 1 0 = - 2 \<and> elem GA 1 1 = - 2) \<and>
        (\<exists>GS. grad_likelihood_S (of_rows [[1, 0], [1, 1]]) (of_rows [[1, 2], [3, 4]])
                 (of_rows [[2, 2], [8, 4]]) (WArray (of_rows [[2, 3]])) = Inr GS \<and>
           elem GS 0 0 = - 4 \<and> elem GS 0 1 = 0 \<and> elem GS 1 0 = - 4 \<and> elem GS 1 1 = 0))"
proof -
  have h: "nrows (of_rows [[1, 2], [3, 4]]) = 2" "ncols (of_rows [[1, 2], [3, 4]]) = 2"
    "nrows (of_rows [[1, 0], [1, 1]]) = 2" "ncols (of_rows [[1, 0], [1, 1]]) = 2"
    "nrows (of_rows [[2, 2], [8, 4]]) = 2" "ncols (of_rows [[2, 2], [8, 4]]) = 2"
    by (simp_all add: of_rows_def)
  have w: "broadcastable (WArray (of_rows [[2, 3]])) 2 2"
    by (simp add: broadcastable_def of_rows_def)
  from gradient_model[OF h w] obtain D GA GS where
    D: "delta_data (of_rows [[1, 2], [3, 4]]) (of_rows [[1, 0], [1, 1]]) (of_rows [[2, 2], [8, 4]])
           (WArray (of_rows [[2, 3]])) = Inr D" "nrows D = 2" "ncols D = 2"
      "\<forall>i<2. \<forall>j<2. elem D i j = weight_at (WArray (of_rows [[2, 3]])) i j *
          ((\<Sum>k<2. elem (of_rows [[1, 2], [3, 4]]) i k * elem (of_rows [[1, 0], [1, 1]]) k j)
            - elem (of_rows [[2, 2], [8, 4]]) i j)"
    and GA: "grad_likelihood_A (of_rows [[1, 2], [3, 4]]) (of_rows [[1, 0], [1, 1]])
                 (of_rows [[2, 2], [8, 4]]) (WArray (of_rows [[2, 3]])) = Inr GA"
      "\<forall>i<2. \<forall>k<2. elem GA i k = (\<Sum>n<2. elem D i n * elem (of_rows [[1, 0], [1, 1]]) k n)"
    and GS: "grad_likelihood_S (of_rows [[1, 0], [1, 1]]) (of_rows [[1, 2], [3, 4]])
                 (of_rows [[2, 2], [8, 4]]) (WArray (of_rows [[2, 3]])) = Inr GS"
      "\<forall>k<2. \<forall>n<2. elem GS k n = (\<Sum>m<2. elem (of_rows [[1, 2], [3, 4]]) m k * elem D m n)"
    by blast
  have two: "\<And>P. (\<forall>i<2::nat. P i) = (P 0 \<and> P 1)"
    by (auto simp: less_2_cases_iff)
  have s2: "\<And>f :: nat \<Rightarrow> real. (\<Sum>k<2. f k) = f 0 + f 1"
    by (simp add: numeral_2_eq_2)
  have d: "elem D 0 0 = 2 \<and> elem D 0 1 = 0 \<and> elem D 1 0 = - 2 \<and> elem D 1 1 = 0"
    using D(4) by (simp add: two s2 weight_at_def of_rows_def bidx_def)
  have a: "elem GA 0 0 = 2 \<and> elem GA 0 1 = 2 \<and> elem GA 1 0 = - 2 \<and> elem GA 1 1 = - 2"
    using GA(2) d by (simp add: two s2 of_rows_def)
  have b: "elem GS 0 0 = - 4 \<and> elem GS 0 1 = 0 \<and> elem GS 1 0 = - 4 \<and> elem GS 1 1 = 0"
    using GS(2) d by (simp add: two s2 of_rows_def)
  show ?thesis using h w D(1-3) GA(1) GS(1) d a b by blast
qed

section \<open>The driver\<close>

text \<open>\<^verbatim>\<open>W.max()\<close> is the largest entry of \<open>W\<close>.\<close>

lemma set_entries:
  "set (entries A) = (\<lambda>(i, j). elem A i j) ` ({..<nrows A} \<times> {..<ncols A})"
  by (auto simp: entries_def)

lemma arr_max_is_max:
  assumes "arr_max A = Inr m"
  shows "(\<forall>i<nrows A. \<forall>j<ncols A. elem A i j \<le> m) \<and> (\<exists>i<nrows A. \<exists>j<ncols A. elem A i j = m)"
proof -
  from assms have ne: "set (entries A) \<noteq> {}" and m: "m = Max (set (entries A))"
    by (auto simp: arr_max_def split: if_splits)
  have "\<forall>x\<in>set (entries A). x \<le> m" unfolding m by simp
  then have le: "\<forall>i<nrows A. \<forall>j<ncols A. elem A i j \<le> m"
    unfolding set_entries by auto
  have "m \<in> set (entries A)" unfolding m using ne by (intro Max_in) simp_all
  then have "\<exists>i<nrows A. \<exists>j<ncols A. elem A i j = m"
    unfolding set_entries by auto
  with le show ?thesis by simp
qed

lemma init_Wmax:
  assumes "Steps_AS_init sl (Some m) ms uo None None = Inr st"
  shows "WAmax st = m \<and> WSmax st = m"
  using assms unfolding Steps_AS_init_def Let_def
  by (auto split: if_splits sum.splits option.splits)

text \<open>
  Claim C8, as stated, fails: the driver calls \<^verbatim>\<open>W.max()\<close> on every \<open>W\<close> that is not
  \<^verbatim>\<open>None\<close>, and a Python scalar has no such method. \<^verbatim>\<open>nmf(Y, A0, S0, W=2)\<close> raises
  \<^verbatim>\<open>AttributeError\<close> before a controller is built.
\<close>

theorem nmf_weights_counterexample:
  "nmf norm11 one_sweep (of_rows [[6]]) (of_rows [[1]]) (of_rows [[2]]) (WScalar 2)
     prox_plus prox_plus () (9 / 10) None False = Inl AttributeError"
  by (simp add: nmf_def weight_max_def)

text \<open>
  Claim C8, amended: the interface admits \<^verbatim>\<open>None\<close> or an array (the docstring has "optional
  weight matrix MxN"). When \<open>W\<close> is omitted, the update is bound to \<open>W = 1\<close> and the
  controller is built with \<open>Wmax = 1\<close>; when \<open>W\<close> is an array with at least one entry, the
  update is bound to \<open>W\<close> and the controller is built with \<open>Wmax = W.max()\<close>, the largest
  entry of \<open>W\<close>. In both cases the controller that the solver receives has
  \<open>WAmax = WSmax = Wmax\<close>. A Python scalar \<open>W\<close> raises \<^verbatim>\<open>AttributeError\<close>.
\<close>

theorem nmf_weights:
  "nmf sn bsdmm Y A0 S0 WNone prox_A prox_S opts sl uo tb =
     (case Steps_AS_init sl (Some 1) 100 uo None None of
        Inl e \<Rightarrow> Inl e
      | Inr steps_f \<Rightarrow>
         nmf_return tb
           (bsdmm [A0, S0] (\<lambda>X step Xs j. prox_likelihood X step Xs j Y (WScalar 1) prox_S prox_A)
              (Steps_AS_call sn) steps_f opts uo tb)) \<and>
   (arr_max Wm = Inr m \<longrightarrow>
      nmf sn bsdmm Y A0 S0 (WArray Wm) prox_A prox_S opts sl uo tb =
        (case Steps_AS_init sl (Some m) 100 uo None None of
           Inl e \<Rightarrow> Inl e
         | Inr steps_f \<Rightarrow>
            nmf_return tb
              (bsdmm [A0, S0] (\<lambda>X step Xs j. prox_likelihood X step Xs j Y (WArray Wm) prox_S prox_A)
                 (Steps_AS_call sn) steps_f opts uo tb)) \<and>
      (\<forall>i<nrows Wm. \<forall>j<ncols Wm. elem Wm i j \<le> m) \<and>
      (\<exists>i<nrows Wm. \<exists>j<ncols Wm. elem Wm i j = m)) \<and>
   (Steps_AS_init sl (Some m) 100 uo None None = Inr st \<longrightarrow> WAmax st = m \<and> WSmax st = m) \<and>
   nmf sn bsdmm Y A0 S0 (WScalar w) prox_A prox_S opts sl uo tb = Inl AttributeError"
proof -
  have none: "nmf sn bsdmm Y A0 S0 WNone prox_A prox_S opts sl uo tb =
     (case Steps_AS_init sl (Some 1) 100 uo None None of
        Inl e \<Rightarrow> Inl e
      | Inr steps_f \<Rightarrow>
         nmf_return tb
           (bsdmm [A0, S0] (\<lambda>X step Xs j. prox_likelihood X step Xs j Y (WScalar 1) prox_S prox_A)
              (Steps_AS_call sn) steps_f opts uo tb))"
    by (simp add: nmf_def Let_def split: sum.splits)
  have arr: "nmf sn bsdmm Y A0 S0 (WArray Wm) prox_A prox_S opts sl uo tb =
        (case Steps_AS_init sl (Some m) 100 uo None None of
           Inl e \<Rightarrow> Inl e
         | Inr steps_f \<Rightarrow>
            nmf_return tb
              (bsdmm [A0, S0] (\<lambda>X step Xs j. prox_likelihood X step Xs j Y (WArray Wm) prox_S prox_A)
                 (Steps_AS_call sn) steps_f opts uo tb))" if "arr_max Wm = Inr m"
    using that by (simp add: nmf_def weight_max_def Let_def split: sum.splits)
  have sc: "nmf sn bsdmm Y A0 S0 (WScalar w) prox_A prox_S opts sl uo tb = Inl AttributeError"
    by (simp add: nmf_def weight_max_def)
  show ?thesis using none arr sc arr_max_is_max[of Wm m] init_Wmax[of sl m 100 uo st] by blast
qed

theorem nmf_weights_witness:
  "arr_max (of_rows [[2]]) = Inr 2 \<and>
   Steps_AS_init (9 / 10) (Some 2) 100 None None None =
     Inr (default_ctrl\<lparr>WSmax := 2, WAmax := 2\<rparr>) \<and>
   nmf norm11 one_sweep (of_rows [[6]]) (of_rows [[1]]) (of_rows [[2]]) (WArray (of_rows [[2]]))
       prox_plus prox_plus () (9 / 10) None False =
     nmf_return False
       (one_sweep [of_rows [[1]], of_rows [[2]]]
          (\<lambda>X step Xs j. prox_likelihood X step Xs j (of_rows [[6]]) (WArray (of_rows [[2]]))
             prox_plus prox_plus)
          (Steps_AS_call norm11) (default_ctrl\<lparr>WSmax := 2, WAmax := 2\<rparr>) () None False) \<and>
   WAmax (default_ctrl\<lparr>WSmax := 2, WAmax := 2\<rparr>) = 2 \<and>
   WSmax (default_ctrl\<lparr>WSmax := 2, WAmax := 2\<rparr>) = 2 \<and>
   (\<exists>i<nrows (of_rows [[2]]). \<exists>j<ncols (of_rows [[2]]). elem (of_rows [[2]]) i j = 2)"
proof -
  have m: "arr_max (of_rows [[2]]) = Inr 2"
    by (simp add: arr_max_def entries_def of_rows_def)
  have i: "Steps_AS_init (9 / 10) (Some 2) 100 None None None =
     Inr (default_ctrl\<lparr>WSmax := 2, WAmax := 2\<rparr>)"
    by (simp add: eval_defs)
  show ?thesis
    using nmf_weights[of norm11 one_sweep "of_rows [[6]]" "of_rows [[1]]" "of_rows [[2]]"
        prox_plus prox_plus "()" "9 / 10" None False "of_rows [[2]]" 2
        "default_ctrl\<lparr>WSmax := 2, WAmax := 2\<rparr>"] m i
    by simp
qed


end
